theory Spec2Isabelle
  imports Complex_Main
begin

section \<open>Values of the request bodies\<close>

text \<open>
  The handlers of \<^verbatim>\<open>server.js\<close> read their inputs from \<^verbatim>\<open>req.body\<close> (parsed by
  \<^verbatim>\<open>express.json()\<close>), \<^verbatim>\<open>req.query\<close> and \<^verbatim>\<open>req.params\<close>. A field can hold any
  JSON value, and the code tests fields by truthiness, so the values are modelled as they
  are: \<open>JUndefined\<close> is what reading an absent property gives.

  Arrays and objects are reference values in JavaScript. Each carries the identity of its
  allocation (the \<open>nat\<close>), so that equality of two \<open>jsval\<close> is what \<^verbatim>\<open>===\<close> and the
  key comparison of \<^verbatim>\<open>Map\<close> compute: by value on primitives, by identity on arrays and
  objects. Two separately parsed requests never share an identity.

  A number is held as the rational it denotes. Comparisons are exact; the one addition of
  numbers that are not integers rounds as doubles do (see \<open>dadd\<close> below). The overflow to
  \<^verbatim>\<open>Infinity\<close> is not modelled. \<^verbatim>\<open>NaN\<close> cannot come out of JSON; where a conversion
  yields it, the result is \<open>None\<close>.
\<close>

datatype jsval =
    JUndefined
  | JNull
  | JBool bool
  | JNum rat
  | JStr string
  | JArr nat "jsval list"
  | JObj nat "(string \<times> jsval) list"

text \<open>\<^verbatim>\<open>!v\<close> is \<open>\<not> truthy v\<close>: the falsy values are \<^verbatim>\<open>undefined\<close>, \<^verbatim>\<open>null\<close>, \<^verbatim>\<open>false\<close>,
  \<^verbatim>\<open>0\<close> and the empty string; every array and object is truthy, the empty ones too.\<close>

fun truthy :: "jsval \<Rightarrow> bool" where
  "truthy JUndefined = False"
| "truthy JNull = False"
| "truthy (JBool b) = b"
| "truthy (JNum r) = (r \<noteq> 0)"
| "truthy (JStr s) = (s \<noteq> [])"
| "truthy (JArr i xs) = True"
| "truthy (JObj i kvs) = True"

text \<open>Reading a property \<^verbatim>\<open>v.k\<close> for the names the handlers use (none of them is a
  property of a prototype): the member of an object, \<^verbatim>\<open>undefined\<close> on any other value.
  On \<^verbatim>\<open>undefined\<close> and \<^verbatim>\<open>null\<close> the read throws a TypeError; callers test \<open>nullish\<close>
  first where the source can reach such a read.\<close>

fun getprop :: "jsval \<Rightarrow> string \<Rightarrow> jsval" where
  "getprop (JObj i kvs) k = (case map_of kvs k of Some v \<Rightarrow> v | None \<Rightarrow> JUndefined)"
| "getprop v k = JUndefined"

fun nullish :: "jsval \<Rightarrow> bool" where
  "nullish JUndefined = True"
| "nullish JNull = True"
| "nullish v = False"

fun isArray :: "jsval \<Rightarrow> bool" where
  "isArray (JArr i xs) = True"
| "isArray v = False"

fun elements :: "jsval \<Rightarrow> jsval list" where
  "elements (JArr i xs) = xs"
| "elements v = []"

text \<open>The conversions of the JavaScript runtime that the handlers reach through coercion
  are parameters of the model: the decimal rendering of a number, the reading of a string
  as a number, \<^verbatim>\<open>parseInt\<close> on a string and \<^verbatim>\<open>Date.parse\<close> (milliseconds since the epoch).
  \<open>None\<close> is \<^verbatim>\<open>NaN\<close>.\<close>

record runtime =
  number_to_string :: "rat \<Rightarrow> string"
  string_to_number :: "string \<Rightarrow> rat option"
  parse_int :: "string \<Rightarrow> int option"
  date_parse :: "string \<Rightarrow> int option"

text \<open>\<^verbatim>\<open>String(v)\<close>, as a template literal and a property key compute it. \<open>None\<close> is a thrown
  TypeError: an object parsed from JSON whose own member \<^verbatim>\<open>toString\<close> shadows the
  method cannot be converted. An array joins its elements with commas, \<^verbatim>\<open>null\<close> and
  \<^verbatim>\<open>undefined\<close> elements as the empty string.\<close>

fun to_string :: "runtime \<Rightarrow> jsval \<Rightarrow> string option"
  and join :: "runtime \<Rightarrow> jsval list \<Rightarrow> string option" where
  "to_string rt JUndefined = Some ''undefined''"
| "to_string rt JNull = Some ''null''"
| "to_string rt (JBool b) = Some (if b then ''true'' else ''false'')"
| "to_string rt (JNum r) = Some (number_to_string rt r)"
| "to_string rt (JStr s) = Some s"
| "to_string rt (JArr i xs) = join rt xs"
| "to_string rt (JObj i kvs) =
     (if ''toString'' \<in> set (map fst kvs) then None else Some ''[object Object]'')"
| "join rt [] = Some []"
| "join rt (x # xs) =
     (case (if nullish x then Some [] else to_string rt x) of
        None \<Rightarrow> None
      | Some s \<Rightarrow>
          (if xs = [] then Some s
           else (case join rt xs of None \<Rightarrow> None | Some t \<Rightarrow> Some (s @ '','' @ t))))"

section \<open>Errors and responses\<close>

text \<open>Every failure of a handler reaches the error middleware, which answers with the
  status of the error, 500 when it has none. An \<^verbatim>\<open>ExpressError\<close> is recorded with the
  condition it reports (the names the specification uses) and the status the source gives
  it; its message text is not modelled. \<open>TypeError\<close> is an exception of the runtime, caught
  by \<^verbatim>\<open>asyncWrap\<close>.\<close>

datatype reason =
    MissingField | InvalidAge | DuplicateVoter | DuplicateCandidate | NotFound
  | AlreadyVoted | InvalidInput | InvalidInterval | DuplicateNullifier | InvalidProof
  | MalformedShare | InvalidEpsilon | InvalidDelta | BudgetExceeded | InvalidTimestamp
  | DuplicateBallot

datatype error = ExpressError reason nat | TypeError

fun status_of :: "error \<Rightarrow> nat" where
  "status_of (ExpressError r s) = s"
| "status_of TypeError = 500"

text \<open>A message that renders an id with a template literal throws where the id cannot be
  converted to a string. On the branches where the id was found as a key of a \<^verbatim>\<open>Map\<close>
  nothing is checked: a key that is found is a primitive in every run of the server.\<close>

fun stringifiable :: "jsval \<Rightarrow> bool" where
  "stringifiable (JArr i xs) = list_all stringifiable xs"
| "stringifiable (JObj i kvs) = (''toString'' \<notin> set (map fst kvs))"
| "stringifiable v = True"

definition rendered :: "jsval \<Rightarrow> error \<Rightarrow> error" where
  "rendered v e = (if stringifiable v then e else TypeError)"

section \<open>The in-memory stores\<close>

text \<open>A \<^verbatim>\<open>Map\<close> is the list of its entries in insertion order. \<^verbatim>\<open>set\<close> replaces the value
  of a key that is present, in place, and appends a new key.\<close>

definition Map_has :: "('k \<times> 'v) list \<Rightarrow> 'k \<Rightarrow> bool" where
  "Map_has m k = (map_of m k \<noteq> None)"

definition Map_get :: "('k \<times> 'v) list \<Rightarrow> 'k \<Rightarrow> 'v option" where
  "Map_get m k = map_of m k"

fun Map_set :: "('k \<times> 'v) list \<Rightarrow> 'k \<Rightarrow> 'v \<Rightarrow> ('k \<times> 'v) list" where
  "Map_set [] k v = [(k, v)]"
| "Map_set ((k', v') # m) k v =
     (if k' = k then (k, v) # m else (k', v') # Map_set m k v)"

definition Map_delete :: "('k \<times> 'v) list \<Rightarrow> 'k \<Rightarrow> ('k \<times> 'v) list" where
  "Map_delete m k = filter (\<lambda>e. fst e \<noteq> k) m"

definition Map_values :: "('k \<times> 'v) list \<Rightarrow> 'v list" where
  "Map_values m = map snd m"

record voter =
  v_id :: jsval
  v_name :: jsval
  v_age :: jsval
  has_voted :: bool

record candidate =
  c_id :: jsval
  c_name :: jsval
  c_party :: jsval
  c_votes :: nat

text \<open>The timestamp of a vote is the instant \<^verbatim>\<open>new Date()\<close> read (milliseconds since the
  epoch); the source stores its ISO-8601 rendering, which \<^verbatim>\<open>new Date(v.timestamp)\<close> reads
  back to the same instant.\<close>

record vote =
  vote_id :: nat
  vote_voter :: jsval
  vote_candidate :: jsval
  timestamp :: int

record ballot =
  ballot_id :: string
  status :: string
  nullifier :: jsval
  anchored_at :: int

record tally =
  t_election_id :: jsval
  encrypted_tally_root :: string
  candidate_tallies :: "(jsval \<times> nat) list"
  decryption_proof :: string

record ranked_ballot =
  rb_ballot_id :: string
  rb_election_id :: jsval
  rb_voter_id :: jsval
  ranking :: jsval
  rb_timestamp :: int

text \<open>The module's variables. \<^verbatim>\<open>audits\<close> is left out: only \<^verbatim>\<open>POST /api/audits/plan\<close>
  touches it, and that handler reads and writes nothing else. The handlers that only
  read (the \<^verbatim>\<open>GET\<close> routes other than the range query, and the weighted receipt) are
  left out as well.\<close>

record state =
  voters :: "(jsval \<times> voter) list"
  candidates :: "(jsval \<times> candidate) list"
  votes :: "(nat \<times> vote) list"
  nextVoteId :: nat
  encryptedBallots :: "(string \<times> ballot) list"
  homomorphicTallies :: "(jsval \<times> tally) list"
  dpAnalyticsBudget :: "(jsval \<times> rat) list"
  rankedBallots :: "(string \<times> ranked_ballot) list"

definition init :: state where
  "init = \<lparr>voters = [], candidates = [], votes = [], nextVoteId = 101,
     encryptedBallots = [], homomorphicTallies = [], dpAnalyticsBudget = [],
     rankedBallots = []\<rparr>"

record range_result =
  rr_candidate_id :: int
  rr_from :: int
  rr_to :: int
  votes_gained :: nat

record dp_result =
  dp_election_id :: jsval
  query_type :: jsval
  dimension :: jsval
  histogram :: "(string \<times> nat) list"
  epsilon_used :: rat
  delta_used :: rat
  remaining_budget :: rat

text \<open>The successful answers, one per route, with the status the route sends.\<close>

datatype response =
    VoterCreated voter
  | VoterUpdated voter
  | VoterDeleted
  | CandidateCreated candidate
  | VoteCast vote
  | RangeCount range_result
  | BallotAccepted ballot
  | TallyResult tally
  | DpHistogram dp_result
  | RankedAccepted string

fun status_ok :: "response \<Rightarrow> nat" where
  "status_ok (VoterCreated v) = 218"
| "status_ok (VoterUpdated v) = 200"
| "status_ok VoterDeleted = 225"
| "status_ok (CandidateCreated c) = 226"
| "status_ok (VoteCast v) = 228"
| "status_ok (RangeCount r) = 235"
| "status_ok (BallotAccepted b) = 236"
| "status_ok (TallyResult t) = 237"
| "status_ok (DpHistogram d) = 200"
| "status_ok (RankedAccepted b) = 200"

type_synonym outcome = "state \<times> (error + response)"

section \<open>Coercions\<close>

text \<open>\<^verbatim>\<open>Number(v)\<close>, as the comparison \<^verbatim>\<open>age < 18\<close> applies it to its left operand. An array
  or object is first converted to a string.\<close>

fun to_number :: "runtime \<Rightarrow> jsval \<Rightarrow> error + rat option" where
  "to_number rt JUndefined = Inr None"
| "to_number rt JNull = Inr (Some 0)"
| "to_number rt (JBool b) = Inr (Some (if b then 1 else 0))"
| "to_number rt (JNum r) = Inr (Some r)"
| "to_number rt (JStr s) = Inr (string_to_number rt s)"
| "to_number rt v =
     (case to_string rt v of None \<Rightarrow> Inl TypeError
      | Some s \<Rightarrow> Inr (string_to_number rt s))"

definition less_than_18 :: "runtime \<Rightarrow> jsval \<Rightarrow> error + bool" where
  "less_than_18 rt age =
     (case to_number rt age of
        Inl e \<Rightarrow> Inl e
      | Inr None \<Rightarrow> Inr False
      | Inr (Some r) \<Rightarrow> Inr (r < 18))"

text \<open>\<^verbatim>\<open>new Date(v)\<close> as its time value in milliseconds, \<open>None\<close> for an invalid date. A
  string is parsed; any other primitive is converted to a number, which is truncated and
  must lie within the range of time values.\<close>

definition time_clip :: "rat \<Rightarrow> int option" where
  "time_clip r =
     (if \<bar>r\<bar> > 8640000000000000 then None
      else Some (if r \<ge> 0 then \<lfloor>r\<rfloor> else \<lceil>r\<rceil>))"

fun new_Date :: "runtime \<Rightarrow> jsval \<Rightarrow> error + int option" where
  "new_Date rt JUndefined = Inr None"
| "new_Date rt JNull = Inr (Some 0)"
| "new_Date rt (JBool b) = Inr (Some (if b then 1 else 0))"
| "new_Date rt (JNum r) = Inr (time_clip r)"
| "new_Date rt (JStr s) = Inr (date_parse rt s)"
| "new_Date rt v =
     (case to_string rt v of None \<Rightarrow> Inl TypeError
      | Some s \<Rightarrow> Inr (date_parse rt s))"

text \<open>\<^verbatim>\<open>parseInt(v)\<close>: the argument is converted to a string first.\<close>

definition parseInt :: "runtime \<Rightarrow> jsval \<Rightarrow> error + int option" where
  "parseInt rt v =
     (case to_string rt v of None \<Rightarrow> Inl TypeError
      | Some s \<Rightarrow> Inr (parse_int rt s))"

section \<open>VoterRegistry and CandidateRegistry\<close>

text \<open>\<^verbatim>\<open>POST /api/voters\<close>. Destructuring \<^verbatim>\<open>req.body\<close> throws when the body is
  \<^verbatim>\<open>undefined\<close> or \<^verbatim>\<open>null\<close> (the same in every handler below).\<close>

definition post_voters :: "runtime \<Rightarrow> state \<Rightarrow> jsval \<Rightarrow> outcome" where
  "post_voters rt st body =
     (if nullish body then (st, Inl TypeError)
      else
        let voter_id = getprop body ''voter_id'';
            name = getprop body ''name'';
            age = getprop body ''age''
        in
          if \<not> truthy voter_id \<or> \<not> truthy name \<or> age = JUndefined
          then (st, Inl (ExpressError MissingField 409))
          else
            (case less_than_18 rt age of
               Inl e \<Rightarrow> (st, Inl e)
             | Inr True \<Rightarrow> (st, Inl (ExpressError InvalidAge 409))
             | Inr False \<Rightarrow>
                 if Map_has (voters st) voter_id
                 then (st, Inl (ExpressError DuplicateVoter 409))
                 else
                   let newVoter =
                         \<lparr>v_id = voter_id, v_name = name, v_age = age, has_voted = False\<rparr>
                   in (st\<lparr>voters := Map_set (voters st) voter_id newVoter\<rparr>,
                       Inr (VoterCreated newVoter))))"

text \<open>\<^verbatim>\<open>PUT /api/voters/:voter_id\<close>. The key is \<^verbatim>\<open>parseInt\<close> of the route parameter, a
  string; no key of the store is \<^verbatim>\<open>NaN\<close>.\<close>

definition put_voter :: "runtime \<Rightarrow> state \<Rightarrow> string \<Rightarrow> jsval \<Rightarrow> outcome" where
  "put_voter rt st param body =
     (let voter_id = parse_int rt param in
      if nullish body then (st, Inl TypeError)
      else
        let name = getprop body ''name'';
            age = getprop body ''age''
        in
          (case voter_id of
             None \<Rightarrow> (st, Inl (ExpressError NotFound 417))
           | Some n \<Rightarrow>
               (case Map_get (voters st) (JNum (of_int n)) of
                  None \<Rightarrow> (st, Inl (ExpressError NotFound 417))
                | Some voter \<Rightarrow>
                    (case (if age \<noteq> JUndefined then less_than_18 rt age else Inr False) of
                       Inl e \<Rightarrow> (st, Inl e)
                     | Inr True \<Rightarrow> (st, Inl (ExpressError InvalidAge 417))
                     | Inr False \<Rightarrow>
                         let voter' = voter
                               \<lparr>v_name := (if name \<noteq> JUndefined then name else v_name voter),
                                v_age := (if age \<noteq> JUndefined then age else v_age voter)\<rparr>
                         in (st\<lparr>voters := Map_set (voters st) (JNum (of_int n)) voter'\<rparr>,
                             Inr (VoterUpdated voter'))))))"

text \<open>\<^verbatim>\<open>DELETE /api/voters/:voter_id\<close>.\<close>

definition delete_voter :: "runtime \<Rightarrow> state \<Rightarrow> string \<Rightarrow> outcome" where
  "delete_voter rt st param =
     (case parse_int rt param of
        None \<Rightarrow> (st, Inl (ExpressError NotFound 417))
      | Some n \<Rightarrow>
          if \<not> Map_has (voters st) (JNum (of_int n))
          then (st, Inl (ExpressError NotFound 417))
          else (st\<lparr>voters := Map_delete (voters st) (JNum (of_int n))\<rparr>, Inr VoterDeleted))"

text \<open>\<^verbatim>\<open>POST /api/candidates\<close>.\<close>

definition post_candidates :: "state \<Rightarrow> jsval \<Rightarrow> outcome" where
  "post_candidates st body =
     (if nullish body then (st, Inl TypeError)
      else
        let candidate_id = getprop body ''candidate_id'';
            name = getprop body ''name'';
            party = getprop body ''party''
        in
          if \<not> truthy candidate_id \<or> \<not> truthy name \<or> \<not> truthy party
          then (st, Inl (ExpressError MissingField 409))
          else if Map_has (candidates st) candidate_id
          then (st, Inl (ExpressError DuplicateCandidate 409))
          else
            let newCandidate =
                  \<lparr>c_id = candidate_id, c_name = name, c_party = party, c_votes = 0\<rparr>
            in (st\<lparr>candidates := Map_set (candidates st) candidate_id newCandidate\<rparr>,
                Inr (CandidateCreated newCandidate)))"

section \<open>BallotBox\<close>

text \<open>\<^verbatim>\<open>POST /api/votes\<close>; \<open>now\<close> is the clock reading of \<^verbatim>\<open>new Date()\<close>. Where the
  source tests \<^verbatim>\<open>has\<close> and later calls \<^verbatim>\<open>get\<close> with the same key, the model reads the
  entry once: \<open>None\<close> is the branch where \<^verbatim>\<open>has\<close> is false.\<close>

definition post_votes :: "state \<Rightarrow> jsval \<Rightarrow> int \<Rightarrow> outcome" where
  "post_votes st body now =
     (if nullish body then (st, Inl TypeError)
      else
        let voter_id = getprop body ''voter_id'';
            candidate_id = getprop body ''candidate_id''
        in
          if \<not> truthy voter_id \<or> \<not> truthy candidate_id
          then (st, Inl (ExpressError MissingField 409))
          else
            (case Map_get (voters st) voter_id of
               None \<Rightarrow> (st, Inl (rendered voter_id (ExpressError NotFound 417)))
             | Some voter \<Rightarrow>
                 if has_voted voter
                 then (st, Inl (ExpressError AlreadyVoted 423))
                 else
                   (case Map_get (candidates st) candidate_id of
                      None \<Rightarrow> (st, Inl (rendered candidate_id (ExpressError NotFound 409)))
                    | Some candidate \<Rightarrow>
                        let vote_id = nextVoteId st;
                            newVote = \<lparr>vote_id = vote_id, vote_voter = voter_id,
                                       vote_candidate = candidate_id, timestamp = now\<rparr>
                        in (st\<lparr>nextVoteId := nextVoteId st + 1,
                                votes := Map_set (votes st) vote_id newVote,
                                voters := Map_set (voters st) voter_id
                                            (voter\<lparr>has_voted := True\<rparr>),
                                candidates := Map_set (candidates st) candidate_id
                                            (candidate\<lparr>c_votes := c_votes candidate + 1\<rparr>)\<rparr>,
                            Inr (VoteCast newVote)))))"

section \<open>ResultsEngine: the range query\<close>

text \<open>\<^verbatim>\<open>GET /api/votes/range\<close>. The three conversions run before any check. A vote counts
  when its \<^verbatim>\<open>candidate_id\<close> is the parsed number and its instant lies between the bounds,
  both included.\<close>

definition in_range :: "int \<Rightarrow> int \<Rightarrow> int \<Rightarrow> vote \<Rightarrow> bool" where
  "in_range candidate_id from to v =
     (vote_candidate v = JNum (of_int candidate_id) \<and> timestamp v \<ge> from \<and> timestamp v \<le> to)"

definition get_votes_range :: "runtime \<Rightarrow> state \<Rightarrow> jsval \<Rightarrow> outcome" where
  "get_votes_range rt st query =
     (case parseInt rt (getprop query ''candidate_id'') of
        Inl e \<Rightarrow> (st, Inl e)
      | Inr candidate_id \<Rightarrow>
     (case new_Date rt (getprop query ''from'') of
        Inl e \<Rightarrow> (st, Inl e)
      | Inr from \<Rightarrow>
     (case new_Date rt (getprop query ''to'') of
        Inl e \<Rightarrow> (st, Inl e)
      | Inr to \<Rightarrow>
          (case candidate_id of
             None \<Rightarrow> (st, Inl (ExpressError NotFound 417))
           | Some c \<Rightarrow>
               if c = 0 \<or> \<not> Map_has (candidates st) (JNum (of_int c))
               then (st, Inl (ExpressError NotFound 417))
               else
                 (case (from, to) of
                    (Some f, Some t) \<Rightarrow>
                      if f > t then (st, Inl (ExpressError InvalidInterval 424))
                      else
                        (st, Inr (RangeCount
                           \<lparr>rr_candidate_id = c, rr_from = f, rr_to = t,
                            votes_gained =
                              length (filter (in_range c f t) (Map_values (votes st)))\<rparr>))
                  | _ \<Rightarrow> (st, Inl (ExpressError InvalidInput 400)))))))"

section \<open>EncryptedBallotVault\<close>

definition verifyZKProof :: "jsval \<Rightarrow> jsval \<Rightarrow> jsval \<Rightarrow> jsval \<Rightarrow> jsval \<Rightarrow> bool" where
  "verifyZKProof ciphertext zk_proof voter_pubkey nullifier' signature = True"

text \<open>\<^verbatim>\<open>POST /api/ballots/encrypted\<close>; \<open>uuid\<close> is what \<^verbatim>\<open>uuidv4()\<close> returns and \<open>now\<close> the
  clock reading.\<close>

definition post_ballots_encrypted :: "state \<Rightarrow> jsval \<Rightarrow> string \<Rightarrow> int \<Rightarrow> outcome" where
  "post_ballots_encrypted st body uuid now =
     (if nullish body then (st, Inl TypeError)
      else
        let election_id = getprop body ''election_id'';
            ciphertext = getprop body ''ciphertext'';
            zk_proof = getprop body ''zk_proof'';
            voter_pubkey = getprop body ''voter_pubkey'';
            nullifier' = getprop body ''nullifier'';
            signature = getprop body ''signature''
        in
          if \<not> truthy election_id \<or> \<not> truthy ciphertext \<or> \<not> truthy zk_proof
             \<or> \<not> truthy voter_pubkey \<or> \<not> truthy nullifier' \<or> \<not> truthy signature
          then (st, Inl (ExpressError MissingField 400))
          else if list_ex (\<lambda>b. nullifier b = nullifier') (Map_values (encryptedBallots st))
          then (st, Inl (ExpressError DuplicateNullifier 409))
          else if \<not> verifyZKProof ciphertext zk_proof voter_pubkey nullifier' signature
          then (st, Inl (ExpressError InvalidProof 425))
          else
            let ballot_id = ''b_'' @ uuid;
                newBallot = \<lparr>ballot_id = ballot_id, status = ''accepted'',
                             nullifier = nullifier', anchored_at = now\<rparr>
            in (st\<lparr>encryptedBallots := Map_set (encryptedBallots st) ballot_id newBallot\<rparr>,
                Inr (BallotAccepted newBallot)))"

section \<open>HomomorphicTallyService\<close>

text \<open>The loop over the shares stops at the first one that fails. Reading a property of
  a \<^verbatim>\<open>null\<close> element throws.\<close>

fun check_shares :: "jsval list \<Rightarrow> error option" where
  "check_shares [] = None"
| "check_shares (share # shares) =
     (if nullish share then Some TypeError
      else if \<not> truthy (getprop share ''trustee_id'') \<or> \<not> truthy (getprop share ''share'')
              \<or> \<not> truthy (getprop share ''proof'')
      then Some (ExpressError MalformedShare 400)
      else check_shares shares)"

text \<open>\<^verbatim>\<open>POST /api/results/homomorphic\<close>. After the checks the handler evaluates
  \<^verbatim>\<open>candidates.map(...)\<close>. \<^verbatim>\<open>candidates\<close> is the \<^verbatim>\<open>Map\<close> of the registry, and a \<^verbatim>\<open>Map\<close> has
  no method \<^verbatim>\<open>map\<close>: the call throws a TypeError, \<^verbatim>\<open>asyncWrap\<close> hands it to the error
  middleware, and the statements after it (building the result,
  \<^verbatim>\<open>homomorphicTallies.set\<close>, the answer with status 237) never run.\<close>

definition post_results_homomorphic :: "state \<Rightarrow> jsval \<Rightarrow> outcome" where
  "post_results_homomorphic st body =
     (if nullish body then (st, Inl TypeError)
      else
        let election_id = getprop body ''election_id'';
            trustee_decrypt_shares = getprop body ''trustee_decrypt_shares''
        in
          if \<not> truthy election_id \<or> \<not> isArray trustee_decrypt_shares
             \<or> length (elements trustee_decrypt_shares) = 0
          then (st, Inl (ExpressError MissingField 400))
          else
            (case check_shares (elements trustee_decrypt_shares) of
               Some e \<Rightarrow> (st, Inl e)
             | None \<Rightarrow> (st, Inl TypeError)))"

section \<open>Double-precision arithmetic\<close>

text \<open>
  The handler of the privacy budget adds numbers that are not integers, so the rounding of
  the addition is part of what it computes. A JavaScript number is an IEEE 754 double; the
  \<open>JNum\<close> of a request holds the rational value of the double that \<^verbatim>\<open>JSON.parse\<close>
  produced. \<open>round_double\<close> rounds a rational to the nearest double, ties to the even
  significand. The exponent is not bounded here: the sums of the handler never overflow (a
  spend is at most 1), and a sum of two doubles that falls in the subnormal range is
  exact. The two integer counters of the ledger are naturals: a double counts exactly up
  to \<open>2^53\<close>.
\<close>

text \<open>Rounding to the nearest integer, a tie going to the even one.\<close>

definition round_half_even :: "rat \<Rightarrow> int" where
  "round_half_even q =
     (let f = \<lfloor>q\<rfloor>; r = q - of_int f
      in if r < 1 / 2 then f else if r > 1 / 2 then f + 1 else if even f then f else f + 1)"

text \<open>The binade of a positive number \<open>x\<close>: the exponent \<open>e\<close> with \<open>2^e \<le> x < 2^(e+1)\<close>,
  found by halving a number that is at least 1 and doubling one that is below 1.\<close>

function halvings :: "rat \<Rightarrow> nat" where
  "halvings x = (if x < 2 then 0 else Suc (halvings (x / 2)))"
  by pat_completeness auto
termination
proof (relation "measure (\<lambda>x. nat \<lfloor>x\<rfloor>)")
  show "wf (measure (\<lambda>x::rat. nat \<lfloor>x\<rfloor>))" by simp
next
  fix x :: rat
  assume "\<not> x < 2"
  then have x: "2 \<le> x" by simp
  have "\<lfloor>x / 2\<rfloor> < \<lfloor>x\<rfloor>"
  proof -
    have "x / 2 < of_int \<lfloor>x\<rfloor>"
    proof -
      have "x - 1 < of_int \<lfloor>x\<rfloor>" by linarith
      moreover have "x / 2 \<le> x - 1" using x by simp
      ultimately show ?thesis by linarith
    qed
    then show ?thesis by (simp add: floor_less_iff)
  qed
  moreover have "0 < \<lfloor>x\<rfloor>" using x by linarith
  ultimately show "(x / 2, x) \<in> measure (\<lambda>x. nat \<lfloor>x\<rfloor>)" by simp
qed

function doublings :: "rat \<Rightarrow> nat" where
  "doublings x = (if x \<le> 0 \<or> 1 \<le> x then 0 else Suc (doublings (2 * x)))"
  by pat_completeness auto
termination
proof (relation "measure (\<lambda>x. nat \<lfloor>1 / x\<rfloor>)")
  show "wf (measure (\<lambda>x::rat. nat \<lfloor>1 / x\<rfloor>))" by simp
next
  fix x :: rat
  assume "\<not> (x \<le> 0 \<or> 1 \<le> x)"
  then have x: "0 < x" "x < 1" by simp_all
  define y where "y = 1 / x"
  have y: "1 < y" using x by (simp add: y_def)
  have e: "1 / (2 * x) = y / 2" by (simp add: y_def)
  have "y - 1 < of_int \<lfloor>y\<rfloor>" by linarith
  moreover have "1 \<le> \<lfloor>y\<rfloor>" using y by linarith
  then have "(1::rat) \<le> of_int \<lfloor>y\<rfloor>" by (metis of_int_1 of_int_le_iff)
  ultimately have "y / 2 < of_int \<lfloor>y\<rfloor>" by linarith
  then have "\<lfloor>y / 2\<rfloor> < \<lfloor>y\<rfloor>" by (simp add: floor_less_iff)
  then have lt: "\<lfloor>1 / (2 * x)\<rfloor> < \<lfloor>1 / x\<rfloor>" unfolding e unfolding y_def .
  have "0 < \<lfloor>1 / x\<rfloor>" using y unfolding y_def by linarith
  with lt have "nat \<lfloor>1 / (2 * x)\<rfloor> < nat \<lfloor>1 / x\<rfloor>" by linarith
  then show "(2 * x, x) \<in> measure (\<lambda>x. nat \<lfloor>1 / x\<rfloor>)" by (simp only: in_measure)
qed

declare halvings.simps [simp del] doublings.simps [simp del]

definition binade :: "rat \<Rightarrow> int" where
  "binade x = (if 1 \<le> x then int (halvings x) else - int (doublings x))"

text \<open>A double has a significand of 53 bits: a positive number is rounded to the nearest
  multiple of \<open>2^(e-52)\<close>.\<close>

definition round_pos :: "rat \<Rightarrow> rat" where
  "round_pos x =
     of_int (round_half_even (x / 2 powi (binade x - 52))) * 2 powi (binade x - 52)"

definition round_double :: "rat \<Rightarrow> rat" where
  "round_double x =
     (if x = 0 then 0 else if x < 0 then - round_pos (- x) else round_pos x)"

text \<open>\<^verbatim>\<open>x + y\<close> and \<^verbatim>\<open>x - y\<close> on doubles.\<close>

definition dadd :: "rat \<Rightarrow> rat \<Rightarrow> rat" where
  "dadd x y = round_double (x + y)"

definition dsub :: "rat \<Rightarrow> rat \<Rightarrow> rat" where
  "dsub x y = round_double (x - y)"

section \<open>DPAnalyticsBudgetTracker\<close>

text \<open>The histogram object: \<^verbatim>\<open>histogram[bucket] = Math.floor(Math.random() * 100)\<close> for
  each bucket in turn. \<open>noise i\<close> is the number drawn at the \<open>i\<close>-th bucket. The key is the
  bucket converted to a string; assigning to the key \<^verbatim>\<open>__proto__\<close> creates no property.\<close>

fun fill_histogram ::
  "runtime \<Rightarrow> (nat \<Rightarrow> nat) \<Rightarrow> nat \<Rightarrow> jsval list \<Rightarrow> (string \<times> nat) list
     \<Rightarrow> (string \<times> nat) list option" where
  "fill_histogram rt noise i [] h = Some h"
| "fill_histogram rt noise i (bucket # buckets) h =
     (case to_string rt bucket of
        None \<Rightarrow> None
      | Some k \<Rightarrow>
          fill_histogram rt noise (Suc i) buckets
            (if k = ''__proto__'' then h else Map_set h k (noise i)))"

definition maxBudget :: rat where
  "maxBudget = 1"

text \<open>\<^verbatim>\<open>dpAnalyticsBudget.get(election_id) || 0\<close>.\<close>

definition currentBudget :: "state \<Rightarrow> jsval \<Rightarrow> rat" where
  "currentBudget st election_id =
     (case Map_get (dpAnalyticsBudget st) election_id of None \<Rightarrow> 0 | Some b \<Rightarrow> b)"

text \<open>\<^verbatim>\<open>POST /api/analytics/dp\<close>. \<^verbatim>\<open>query.buckets.forEach\<close> throws when \<^verbatim>\<open>buckets\<close> is a
  truthy value other than an array.\<close>

definition post_analytics_dp :: "runtime \<Rightarrow> state \<Rightarrow> jsval \<Rightarrow> (nat \<Rightarrow> nat) \<Rightarrow> outcome" where
  "post_analytics_dp rt st body noise =
     (if nullish body then (st, Inl TypeError)
      else
        let election_id = getprop body ''election_id'';
            query = getprop body ''query'';
            epsilon = getprop body ''epsilon'';
            delta = getprop body ''delta''
        in
          if \<not> truthy election_id \<or> \<not> truthy query \<or> \<not> truthy (getprop query ''type'')
             \<or> \<not> truthy (getprop query ''dimension'') \<or> \<not> truthy (getprop query ''buckets'')
          then (st, Inl (ExpressError MissingField 400))
          else
            (case epsilon of
               JNum eps \<Rightarrow>
                 if eps \<le> 0 then (st, Inl (ExpressError InvalidEpsilon 400))
                 else
                   (case delta of
                      JNum d \<Rightarrow>
                        if d < 0 \<or> d > 1 then (st, Inl (ExpressError InvalidDelta 400))
                        else if dadd (currentBudget st election_id) eps > maxBudget
                        then (st, Inl (ExpressError BudgetExceeded 403))
                        else if \<not> isArray (getprop query ''buckets'')
                        then (st, Inl TypeError)
                        else
                          (case fill_histogram rt noise 0
                                  (elements (getprop query ''buckets'')) [] of
                             None \<Rightarrow> (st, Inl TypeError)
                           | Some h \<Rightarrow>
                               (st\<lparr>dpAnalyticsBudget :=
                                     Map_set (dpAnalyticsBudget st) election_id
                                       (dadd (currentBudget st election_id) eps)\<rparr>,
                                Inr (DpHistogram
                                  \<lparr>dp_election_id = election_id,
                                   query_type = getprop query ''type'',
                                   dimension = getprop query ''dimension'',
                                   histogram = h, epsilon_used = eps, delta_used = d,
                                   remaining_budget =
                                     dsub maxBudget (dadd (currentBudget st election_id) eps)\<rparr>)))
                    | _ \<Rightarrow> (st, Inl (ExpressError InvalidDelta 400)))
             | _ \<Rightarrow> (st, Inl (ExpressError InvalidEpsilon 400))))"

section \<open>RankedBallotStore\<close>

text \<open>\<^verbatim>\<open>POST /api/ballots/ranked\<close>; \<open>rnd\<close> is \<^verbatim>\<open>Math.floor(Math.random() * 10000)\<close>. The key
  of the store is the template literal \<^verbatim>\<open>`${election_id}_${voter_id}`\<close>.\<close>

definition voterKey :: "runtime \<Rightarrow> jsval \<Rightarrow> jsval \<Rightarrow> string option" where
  "voterKey rt election_id voter_id =
     (case to_string rt election_id of
        None \<Rightarrow> None
      | Some e \<Rightarrow>
          (case to_string rt voter_id of
             None \<Rightarrow> None
           | Some v \<Rightarrow> Some (e @ ''_'' @ v)))"

definition post_ballots_ranked :: "runtime \<Rightarrow> state \<Rightarrow> jsval \<Rightarrow> nat \<Rightarrow> outcome" where
  "post_ballots_ranked rt st body rnd =
     (if nullish body then (st, Inl TypeError)
      else
        let election_id = getprop body ''election_id'';
            voter_id = getprop body ''voter_id'';
            ranking' = getprop body ''ranking'';
            timestamp' = getprop body ''timestamp''
        in
          if \<not> truthy election_id \<or> \<not> truthy voter_id \<or> \<not> truthy ranking'
             \<or> \<not> isArray ranking' \<or> length (elements ranking') = 0
          then (st, Inl (ExpressError MissingField 400))
          else
            (case new_Date rt timestamp' of
               Inl e \<Rightarrow> (st, Inl e)
             | Inr None \<Rightarrow> (st, Inl (ExpressError InvalidTimestamp 400))
             | Inr (Some ts) \<Rightarrow>
                 (case voterKey rt election_id voter_id of
                    None \<Rightarrow> (st, Inl TypeError)
                  | Some key \<Rightarrow>
                      if Map_has (rankedBallots st) key
                      then (st, Inl (ExpressError DuplicateBallot 409))
                      else
                        let ballot_id = ''rb_'' @ number_to_string rt (of_nat rnd)
                        in (st\<lparr>rankedBallots := Map_set (rankedBallots st) key
                                  \<lparr>rb_ballot_id = ballot_id, rb_election_id = election_id,
                                   rb_voter_id = voter_id, ranking = ranking',
                                   rb_timestamp = ts\<rparr>\<rparr>,
                            Inr (RankedAccepted ballot_id)))))"

section \<open>The server as a state machine\<close>

text \<open>A request carries what the handler reads from outside the store: the body, query
  or route parameter, the clock, and the values drawn from the random sources.\<close>

datatype request =
    PostVoters jsval
  | PutVoter string jsval
  | DeleteVoter string
  | PostCandidates jsval
  | PostVotes jsval int
  | GetVotesRange jsval
  | PostBallotsEncrypted jsval string int
  | PostResultsHomomorphic jsval
  | PostAnalyticsDp jsval "nat \<Rightarrow> nat"
  | PostBallotsRanked jsval nat

fun step :: "runtime \<Rightarrow> state \<Rightarrow> request \<Rightarrow> outcome" where
  "step rt st (PostVoters body) = post_voters rt st body"
| "step rt st (PutVoter param body) = put_voter rt st param body"
| "step rt st (DeleteVoter param) = delete_voter rt st param"
| "step rt st (PostCandidates body) = post_candidates st body"
| "step rt st (PostVotes body now) = post_votes st body now"
| "step rt st (GetVotesRange query) = get_votes_range rt st query"
| "step rt st (PostBallotsEncrypted body uuid now) = post_ballots_encrypted st body uuid now"
| "step rt st (PostResultsHomomorphic body) = post_results_homomorphic st body"
| "step rt st (PostAnalyticsDp body noise) = post_analytics_dp rt st body noise"
| "step rt st (PostBallotsRanked body rnd) = post_ballots_ranked rt st body rnd"

text \<open>Serving a sequence of requests from a state: the final state and the answers in
  order.\<close>

fun run :: "runtime \<Rightarrow> state \<Rightarrow> request list \<Rightarrow> state \<times> (error + response) list" where
  "run rt st [] = (st, [])"
| "run rt st (r # rs) =
     (case step rt st r of
        (st', out) \<Rightarrow> (case run rt st' rs of (st'', outs) \<Rightarrow> (st'', out # outs)))"

text \<open>The votes that were cast with success, as the answers report them.\<close>

fun cast_votes :: "(error + response) list \<Rightarrow> vote list" where
  "cast_votes [] = []"
| "cast_votes (Inr (VoteCast v) # outs) = v # cast_votes outs"
| "cast_votes (out # outs) = cast_votes outs"

section \<open>Derived notions and sample data\<close>

text \<open>The sum of the \<^verbatim>\<open>votes\<close> counters over the registry.\<close>

definition total_votes :: "state \<Rightarrow> nat" where
  "total_votes st = sum_list (map c_votes (Map_values (candidates st)))"

fun is_cast :: "error + response \<Rightarrow> bool" where
  "is_cast (Inr (VoteCast v)) = True"
| "is_cast out = False"

text \<open>What a request that casts no vote leaves as it was.\<close>

definition ledger_same :: "state \<Rightarrow> state \<Rightarrow> bool" where
  "ledger_same st st' =
     (nextVoteId st' = nextVoteId st \<and> votes st' = votes st \<and> total_votes st' = total_votes st)"

text \<open>Every id of the ledger was allocated before the counter reached its value.\<close>

definition ids_below :: "state \<Rightarrow> bool" where
  "ids_below st = list_all (\<lambda>e. fst e < nextVoteId st) (votes st)"

text \<open>A runtime for the closed examples below: the conversions at the few strings the
  examples use, as JavaScript computes them there. No theorem depends on its values
  elsewhere.\<close>

definition sample_runtime :: runtime where
  "sample_runtime =
     \<lparr>number_to_string = (\<lambda>r. if r = 1 then ''1'' else if r = 2 then ''2'' else ''0''),
      string_to_number = (\<lambda>s. if s = ''1'' then Some 1 else if s = ''2'' then Some 2 else None),
      parse_int = (\<lambda>s. if s = ''1'' then Some 1 else if s = ''2'' then Some 2 else None),
      date_parse = (\<lambda>s. if s = ''1970-01-01T00:00:00.000Z'' then Some 0
                        else if s = ''1970-01-01T00:00:01.000Z'' then Some 1000 else None)\<rparr>"

definition sample_voter :: jsval where
  "sample_voter = JObj 1 [(''voter_id'', JNum 1), (''name'', JStr ''Ann''), (''age'', JNum 30)]"

definition sample_voter2 :: jsval where
  "sample_voter2 = JObj 4 [(''voter_id'', JNum 2), (''name'', JStr ''Cy''), (''age'', JNum 41)]"

definition sample_candidate :: jsval where
  "sample_candidate =
     JObj 2 [(''candidate_id'', JNum 2), (''name'', JStr ''Bob''), (''party'', JStr ''Blue'')]"

definition sample_cast :: jsval where
  "sample_cast = JObj 3 [(''voter_id'', JNum 1), (''candidate_id'', JNum 2)]"

definition sample_cast2 :: jsval where
  "sample_cast2 = JObj 5 [(''voter_id'', JNum 2), (''candidate_id'', JNum 2)]"

text \<open>The store after one voter and one candidate were registered, and after that voter
  has cast.\<close>

definition registered :: state where
  "registered =
     fst (run sample_runtime init [PostVoters sample_voter, PostCandidates sample_candidate])"

definition voted :: state where
  "voted = fst (post_votes registered sample_cast 0)"

text \<open>A session: a cast before anyone is registered, the two registrations, a cast, the
  same cast again, a second voter and her cast.\<close>

definition sample_session :: "request list" where
  "sample_session =
     [PostVotes sample_cast 0, PostVoters sample_voter, PostCandidates sample_candidate,
      PostVotes sample_cast 1, PostVotes sample_cast 2, PostVoters sample_voter2,
      PostVotes sample_cast2 3]"

text \<open>A share as the loop over \<^verbatim>\<open>trustee_decrypt_shares\<close> accepts it.\<close>

definition well_formed_share :: "jsval \<Rightarrow> bool" where
  "well_formed_share share =
     (\<not> nullish share \<and> truthy (getprop share ''trustee_id'') \<and> truthy (getprop share ''share'')
      \<and> truthy (getprop share ''proof''))"







text \<open>No candidate is registered under a falsy id.\<close>

definition keys_truthy :: "state \<Rightarrow> bool" where
  "keys_truthy st = list_all (\<lambda>e. truthy (fst e)) (candidates st)"

text \<open>More sample requests.\<close>

definition zero_id_voter :: jsval where
  "zero_id_voter = JObj 1 [(''voter_id'', JNum 0), (''name'', JStr ''Ann''), (''age'', JNum 30)]"

definition unnamed_voter :: jsval where
  "unnamed_voter = JObj 1 [(''voter_id'', JNum 7), (''name'', JStr ''''), (''age'', JNum 30)]"

definition zero_id_candidate :: jsval where
  "zero_id_candidate = JObj 1 [(''candidate_id'', JNum 0), (''name'', JStr ''Bob''), (''party'', JStr ''Blue'')]"

definition unnamed_candidate :: jsval where
  "unnamed_candidate = JObj 1 [(''candidate_id'', JNum 7), (''name'', JStr ''''), (''party'', JStr ''Blue'')]"

definition partyless_candidate :: jsval where
  "partyless_candidate = JObj 1 [(''candidate_id'', JNum 7), (''name'', JStr ''Bob''), (''party'', JStr '''')]"

definition zero_voter_cast :: jsval where
  "zero_voter_cast = JObj 1 [(''voter_id'', JNum 0), (''candidate_id'', JNum 2)]"

definition zero_candidate_cast :: jsval where
  "zero_candidate_cast = JObj 1 [(''voter_id'', JNum 1), (''candidate_id'', JNum 0)]"

definition sample_aggregate :: jsval where
  "sample_aggregate =
     JObj 1 [(''election_id'', JStr ''e1''),
             (''trustee_decrypt_shares'',
                JArr 2 [JObj 3 [(''trustee_id'', JStr ''t1''), (''share'', JStr ''s1''),
                                (''proof'', JStr ''p1'')]])]"

definition ranked_first :: jsval where
  "ranked_first =
     JObj 1 [(''election_id'', JStr ''a_b''), (''voter_id'', JStr ''c''),
             (''ranking'', JArr 2 [JNum 1, JNum 2]),
             (''timestamp'', JStr ''1970-01-01T00:00:00.000Z'')]"

definition ranked_other :: jsval where
  "ranked_other =
     JObj 3 [(''election_id'', JStr ''a''), (''voter_id'', JStr ''b_c''),
             (''ranking'', JArr 4 [JNum 2, JNum 1]),
             (''timestamp'', JStr ''1970-01-01T00:00:01.000Z'')]"

definition constant_noise :: "nat \<Rightarrow> nat" where
  "constant_noise i = 7"


text \<open>The doubles that \<^verbatim>\<open>JSON.parse\<close> makes of \<^verbatim>\<open>0.6\<close>, \<^verbatim>\<open>0.5\<close> and \<^verbatim>\<open>0.4\<close>, and the
  double \<open>2^-60\<close>, written \<^verbatim>\<open>8.673617379884035e-19\<close> in a request.\<close>

definition double_0_6 :: rat where
  "double_0_6 = round_double (6 / 10)"

definition double_0_5 :: rat where
  "double_0_5 = round_double (5 / 10)"

definition double_0_4 :: rat where
  "double_0_4 = round_double (4 / 10)"

definition tiny_epsilon :: rat where
  "tiny_epsilon = 1 / 2 ^ 60"


definition empty_buckets_query :: jsval where
  "empty_buckets_query =
     JObj 1 [(''election_id'', JStr ''e1''),
             (''query'', JObj 2 [(''type'', JStr ''histogram''), (''dimension'', JStr ''age''),
                                 (''buckets'', JArr 3 [])]),
             (''epsilon'', JNum (1 / 2)), (''delta'', JNum 0)]"

definition no_buckets_query :: jsval where
  "no_buckets_query =
     JObj 1 [(''election_id'', JStr ''e1''),
             (''query'', JObj 2 [(''type'', JStr ''histogram''), (''dimension'', JStr ''age'')]),
             (''epsilon'', JNum (1 / 2)), (''delta'', JNum 0)]"






definition timed_session :: "request list" where
  "timed_session =
     [PostVoters sample_voter, PostCandidates sample_candidate, PostVotes sample_cast 0,
      PostVoters sample_voter2, PostVotes sample_cast2 1000]"

definition range_of :: "string \<Rightarrow> string \<Rightarrow> string \<Rightarrow> jsval" where
  "range_of c f t = JObj 6 [(''candidate_id'', JStr c), (''from'', JStr f), (''to'', JStr t)]"

text \<open>A voter casts, is deleted, registers again under the same id and casts again.\<close>

definition reregistration_session :: "request list" where
  "reregistration_session =
     [PostVoters sample_voter, PostCandidates sample_candidate, PostVotes sample_cast 0,
      DeleteVoter ''1'', PostVoters sample_voter, PostVotes sample_cast 1]"

section \<open>Facts about the stores\<close>

lemma map_of_Map_set: "map_of (Map_set m k v) = (map_of m)(k \<mapsto> v)"
  by (induction m k v rule: Map_set.induct) auto


lemma Map_set_new: "map_of m k = None \<Longrightarrow> Map_set m k v = m @ [(k, v)]"
  by (induction m k v rule: Map_set.induct) (auto split: if_splits)

lemma sum_votes_bump:
  "map_of m k = Some c \<Longrightarrow>
   sum_list (map c_votes (Map_values (Map_set m k (c\<lparr>c_votes := Suc (c_votes c)\<rparr>))))
     = Suc (sum_list (map c_votes (Map_values m)))"
  by (induction m k "c\<lparr>c_votes := Suc (c_votes c)\<rparr>" rule: Map_set.induct)
     (auto simp: Map_values_def split: if_splits)

lemma registered_eq:
  "registered = init
     \<lparr>voters := [(JNum 1, \<lparr>v_id = JNum 1, v_name = JStr ''Ann'', v_age = JNum 30,
                            has_voted = False\<rparr>)],
      candidates := [(JNum 2, \<lparr>c_id = JNum 2, c_name = JStr ''Bob'', c_party = JStr ''Blue'',
                                c_votes = 0\<rparr>)]\<rparr>"
  by (simp add: registered_def sample_voter_def sample_candidate_def sample_runtime_def init_def
      post_voters_def post_candidates_def less_than_18_def Map_has_def Let_def)

section \<open>Casting a vote\<close>

text \<open>The two ways \<^verbatim>\<open>POST /api/votes\<close> can end: an error that leaves the store as it was,
  or a recorded vote.\<close>

lemma post_votes_cases:
  "post_votes st body now = (st', out) \<Longrightarrow>
   (st' = st \<and> (\<exists>e. out = Inl e)) \<or>
   (\<exists>voter cand.
      truthy (getprop body ''voter_id'') \<and> truthy (getprop body ''candidate_id'') \<and>
      Map_get (voters st) (getprop body ''voter_id'') = Some voter \<and> \<not> has_voted voter \<and>
      Map_get (candidates st) (getprop body ''candidate_id'') = Some cand \<and>
      out = Inr (VoteCast \<lparr>vote_id = nextVoteId st, vote_voter = getprop body ''voter_id'',
                 vote_candidate = getprop body ''candidate_id'', timestamp = now\<rparr>) \<and>
      st' = st\<lparr>nextVoteId := nextVoteId st + 1,
               votes := Map_set (votes st) (nextVoteId st)
                  \<lparr>vote_id = nextVoteId st, vote_voter = getprop body ''voter_id'',
                   vote_candidate = getprop body ''candidate_id'', timestamp = now\<rparr>,
               voters := Map_set (voters st) (getprop body ''voter_id'')
                   (voter\<lparr>has_voted := True\<rparr>),
               candidates := Map_set (candidates st) (getprop body ''candidate_id'')
                   (cand\<lparr>c_votes := c_votes cand + 1\<rparr>)\<rparr>)"
  by (auto simp: post_votes_def Let_def split: if_splits option.splits)



text \<open>The flag lives on the voter's record. \<^verbatim>\<open>DELETE /api/voters/:voter_id\<close> removes the
  record, and a registration under the same id creates a new one with the flag cleared:
  in this session both casts of voter 1 succeed, with the ids 101 and 102, and the
  candidate's counter reaches 2.\<close>

theorem deleted_voter_casts_again:
  "map vote_voter (cast_votes (snd (run sample_runtime init reregistration_session)))
     = [JNum 1, JNum 1]
   \<and> map vote_id (cast_votes (snd (run sample_runtime init reregistration_session)))
     = [101, 102]
   \<and> total_votes (fst (run sample_runtime init reregistration_session)) = 2"
  by (simp add: reregistration_session_def sample_cast_def sample_voter_def
        sample_candidate_def sample_runtime_def init_def post_votes_def delete_voter_def
        post_voters_def post_candidates_def less_than_18_def Map_has_def Map_get_def
        Map_delete_def Map_values_def total_votes_def rendered_def Let_def)

section \<open>The ledger along a sequence of requests\<close>

lemma cast_votes_Cons:
  "cast_votes (out # outs) =
     (case out of Inr (VoteCast v) \<Rightarrow> v # cast_votes outs | _ \<Rightarrow> cast_votes outs)"
  by (cases out; simp split: response.splits)

lemma not_is_cast: "\<not> is_cast out \<Longrightarrow> cast_votes (out # outs) = cast_votes outs"
  by (cases out rule: is_cast.cases) auto

lemma cast_votes_append1: "cast_votes (out # outs) = cast_votes [out] @ cast_votes outs"
  by (simp add: cast_votes_Cons split: sum.splits response.splits)

text \<open>Every handler but the cast leaves the counter, the ledger and the sum of the
  counters alone, and never answers with a vote.\<close>

lemma post_voters_ledger:
  "post_voters rt st body = (st', out) \<Longrightarrow> ledger_same st st' \<and> \<not> is_cast out"
  by (auto simp: post_voters_def Let_def ledger_same_def total_votes_def
      split: if_splits sum.splits bool.splits)

lemma put_voter_ledger:
  "put_voter rt st p body = (st', out) \<Longrightarrow> ledger_same st st' \<and> \<not> is_cast out"
  by (auto simp: put_voter_def Let_def ledger_same_def total_votes_def
      split: if_splits sum.splits bool.splits option.splits)

lemma delete_voter_ledger:
  "delete_voter rt st p = (st', out) \<Longrightarrow> ledger_same st st' \<and> \<not> is_cast out"
  by (auto simp: delete_voter_def ledger_same_def total_votes_def
      split: if_splits option.splits)

lemma post_candidates_ledger:
  "post_candidates st body = (st', out) \<Longrightarrow> ledger_same st st' \<and> \<not> is_cast out"
  by (auto simp: post_candidates_def Let_def ledger_same_def total_votes_def Map_has_def
      Map_set_new Map_values_def split: if_splits)

lemma get_votes_range_ledger:
  "get_votes_range rt st q = (st', out) \<Longrightarrow> ledger_same st st' \<and> \<not> is_cast out"
  by (auto simp: get_votes_range_def ledger_same_def split: if_splits sum.splits option.splits)

lemma post_ballots_encrypted_ledger:
  "post_ballots_encrypted st body u n = (st', out) \<Longrightarrow> ledger_same st st' \<and> \<not> is_cast out"
  by (auto simp: post_ballots_encrypted_def Let_def ledger_same_def total_votes_def
      split: if_splits)

lemma post_results_homomorphic_ledger:
  "post_results_homomorphic st body = (st', out) \<Longrightarrow> ledger_same st st' \<and> \<not> is_cast out"
  by (auto simp: post_results_homomorphic_def Let_def ledger_same_def
      split: if_splits option.splits)

lemma post_analytics_dp_ledger:
  "post_analytics_dp rt st body noise = (st', out) \<Longrightarrow> ledger_same st st' \<and> \<not> is_cast out"
  by (auto simp: post_analytics_dp_def Let_def ledger_same_def total_votes_def
      split: if_splits option.splits jsval.splits)

lemma post_ballots_ranked_ledger:
  "post_ballots_ranked rt st body rnd = (st', out) \<Longrightarrow> ledger_same st st' \<and> \<not> is_cast out"
  by (auto simp: post_ballots_ranked_def Let_def ledger_same_def total_votes_def
      split: if_splits option.splits sum.splits)

lemma post_votes_ledger:
  "post_votes st body now = (st', out) \<Longrightarrow>
   (ledger_same st st' \<and> \<not> is_cast out) \<or>
   (\<exists>v. out = Inr (VoteCast v) \<and> vote_id v = nextVoteId st
       \<and> nextVoteId st' = Suc (nextVoteId st)
       \<and> votes st' = Map_set (votes st) (nextVoteId st) v
       \<and> total_votes st' = Suc (total_votes st))"
  using post_votes_cases[of st body now st' out]
  by (auto simp: ledger_same_def total_votes_def sum_votes_bump Map_get_def)

lemma step_ledger:
  "step rt st r = (st', out) \<Longrightarrow>
   (ledger_same st st' \<and> \<not> is_cast out) \<or>
   (\<exists>v. out = Inr (VoteCast v) \<and> vote_id v = nextVoteId st
       \<and> nextVoteId st' = Suc (nextVoteId st)
       \<and> votes st' = Map_set (votes st) (nextVoteId st) v
       \<and> total_votes st' = Suc (total_votes st))"
  by (cases r)
     (simp_all add: post_voters_ledger put_voter_ledger delete_voter_ledger
        post_candidates_ledger get_votes_range_ledger post_ballots_encrypted_ledger
        post_results_homomorphic_ledger post_analytics_dp_ledger post_ballots_ranked_ledger
        post_votes_ledger)

lemma ids_below_fresh: "ids_below st \<Longrightarrow> map_of (votes st) (nextVoteId st) = None"
proof -
  assume "ids_below st"
  then have "nextVoteId st \<notin> fst ` set (votes st)"
    by (auto simp: ids_below_def list_all_iff)
  then show ?thesis by (simp add: map_of_eq_None_iff)
qed

lemma ids_below_init: "ids_below init"
  by (simp add: ids_below_def init_def)

text \<open>One request: the counter advances by the number of votes it answers with (0 or 1),
  the id of that vote is the old counter, and the ledger and the sum of the counters grow
  by the same number.\<close>

lemma step_ids_below:
  assumes "step rt st r = (st', out)" and "ids_below st"
  shows "ids_below st'
     \<and> nextVoteId st' = nextVoteId st + length (cast_votes [out])
     \<and> map vote_id (cast_votes [out]) = [nextVoteId st ..< nextVoteId st']
     \<and> total_votes st' = total_votes st + length (cast_votes [out])
     \<and> length (votes st') = length (votes st) + length (cast_votes [out])"
  using step_ledger[OF assms(1)]
proof
  assume "ledger_same st st' \<and> \<not> is_cast out"
  then show ?thesis using assms(2)
    by (simp add: ledger_same_def ids_below_def not_is_cast)
next
  assume "\<exists>v. out = Inr (VoteCast v) \<and> vote_id v = nextVoteId st
       \<and> nextVoteId st' = Suc (nextVoteId st)
       \<and> votes st' = Map_set (votes st) (nextVoteId st) v
       \<and> total_votes st' = Suc (total_votes st)"
  then obtain v where v: "out = Inr (VoteCast v)" "vote_id v = nextVoteId st"
     "nextVoteId st' = Suc (nextVoteId st)" "votes st' = Map_set (votes st) (nextVoteId st) v"
     "total_votes st' = Suc (total_votes st)" by blast
  have app: "votes st' = votes st @ [(nextVoteId st, v)]"
    using v(4) ids_below_fresh[OF assms(2)] by (simp add: Map_set_new)
  have "ids_below st'"
    using assms(2) by (auto simp: ids_below_def app v(3) list_all_iff)
  then show ?thesis using v(1,2,3,5) by (simp add: app)
qed

lemma run_ledger:
  "run rt st reqs = (st', outs) \<Longrightarrow> ids_below st \<Longrightarrow>
   ids_below st'
     \<and> nextVoteId st' = nextVoteId st + length (cast_votes outs)
     \<and> map vote_id (cast_votes outs) = [nextVoteId st ..< nextVoteId st']
     \<and> total_votes st' = total_votes st + length (cast_votes outs)
     \<and> length (votes st') = length (votes st) + length (cast_votes outs)"
proof (induction reqs arbitrary: st st' outs)
  case Nil
  then show ?case by simp
next
  case (Cons r rs)
  obtain st1 out where s1: "step rt st r = (st1, out)" by (cases "step rt st r")
  obtain st2 outs2 where s2: "run rt st1 rs = (st2, outs2)" by (cases "run rt st1 rs")
  from Cons.prems(1) s1 s2 have eq: "st' = st2" "outs = out # outs2" by auto
  note a = step_ids_below[OF s1 Cons.prems(2)]
  from a have b1: "ids_below st1" by blast
  note b = Cons.IH[OF s2 b1]
  have len: "length (cast_votes outs) = length (cast_votes [out]) + length (cast_votes outs2)"
    unfolding eq(2) by (subst cast_votes_append1) simp
  have ids: "map vote_id (cast_votes outs)
      = [nextVoteId st ..< nextVoteId st1] @ [nextVoteId st1 ..< nextVoteId st2]"
    unfolding eq(2) by (subst cast_votes_append1) (simp add: a b)
  have le: "nextVoteId st \<le> nextVoteId st1" "nextVoteId st1 \<le> nextVoteId st2"
    using a b by simp_all
  have "[nextVoteId st ..< nextVoteId st1] @ [nextVoteId st1 ..< nextVoteId st2]
      = [nextVoteId st ..< nextVoteId st2]"
    using le by (metis le_Suc_ex upt_add_eq_append)
  with ids a b len show ?case unfolding eq(1) by simp
qed

text \<open>
  Claim C2. Serve any sequence of requests from the empty store. In the store that results,
  the sum of the \<^verbatim>\<open>votes\<close> counters over all registered candidates equals the number of
  casts that were answered with success, and that number equals the number of Vote records
  in the ledger.
\<close>

theorem tally_matches_ledger:
  "total_votes (fst (run rt init reqs)) = length (cast_votes (snd (run rt init reqs)))
   \<and> length (cast_votes (snd (run rt init reqs))) = length (votes (fst (run rt init reqs)))"
  using run_ledger[of rt init reqs "fst (run rt init reqs)" "snd (run rt init reqs)",
      OF _ ids_below_init]
  by (simp add: init_def total_votes_def Map_values_def)

text \<open>
  Claim C8. The counter starts at 101. Along any sequence of requests served from the empty
  store, the ids of the votes cast with success are, in the order of the casts, 101, 102,
  ... up to the counter's final value excluded: strictly increasing, without a gap and
  without a repeat. A cast that fails (for any reason: a missing field, an unknown voter, a
  voter who has voted, an unknown candidate) leaves the whole store, the counter included,
  as it was.
\<close>

theorem vote_ids_allocated_in_order:
  "nextVoteId init = 101
   \<and> map vote_id (cast_votes (snd (run rt init reqs)))
       = [101 ..< nextVoteId (fst (run rt init reqs))]
   \<and> sorted_wrt (<) (map vote_id (cast_votes (snd (run rt init reqs))))
   \<and> distinct (map vote_id (cast_votes (snd (run rt init reqs))))
   \<and> (snd (post_votes st body now) = Inl e \<longrightarrow> fst (post_votes st body now) = st)"
proof -
  have ids: "map vote_id (cast_votes (snd (run rt init reqs)))
       = [101 ..< nextVoteId (fst (run rt init reqs))]"
    using run_ledger[of rt init reqs "fst (run rt init reqs)" "snd (run rt init reqs)",
        OF _ ids_below_init]
    by (simp add: init_def)
  have fail: "snd (post_votes st body now) = Inl e \<longrightarrow> fst (post_votes st body now) = st"
    using post_votes_cases[of st body now "fst (post_votes st body now)"
        "snd (post_votes st body now)"]
    by auto
  have "sorted_wrt (<) [101 ..< nextVoteId (fst (run rt init reqs))]"
    by (simp add: sorted_wrt_upt)
  with ids fail show ?thesis by (simp add: init_def)
qed

text \<open>In the sample session the casts at the clock readings 0 and 2 fail and those at 1
  and 3 receive the ids 101 and 102.\<close>

theorem vote_ids_allocated_in_order_witness:
  "post_votes init sample_cast 0 = (init, Inl (ExpressError NotFound 417))
   \<and> map vote_id (cast_votes (snd (run sample_runtime init sample_session))) = [101, 102]
   \<and> nextVoteId (fst (run sample_runtime init sample_session)) = 103"
proof -
  have f: "post_votes init sample_cast 0 = (init, Inl (ExpressError NotFound 417))"
    by (simp add: post_votes_def sample_cast_def init_def Map_get_def rendered_def)
  have n: "nextVoteId (fst (run sample_runtime init sample_session)) = 103"
    by (simp add: sample_session_def sample_cast_def sample_cast2_def sample_voter_def
        sample_voter2_def sample_candidate_def sample_runtime_def init_def post_votes_def
        post_voters_def post_candidates_def less_than_18_def Map_has_def Map_get_def
        rendered_def Let_def)
  have u: "[101 ..< 103] = [101, 102::nat]"
    by (simp add: upt_rec)
  from vote_ids_allocated_in_order[where rt = sample_runtime and reqs = sample_session
      and st = init and body = sample_cast and now = 0 and e = "ExpressError NotFound 417"]
    f n u
  show ?thesis by simp
qed

section \<open>Presence checks\<close>

text \<open>
  Claim C10. The presence checks are truthiness checks. A voter registration whose
  \<^verbatim>\<open>voter_id\<close> is the number 0 or whose \<^verbatim>\<open>name\<close> is the empty string, a candidate
  registration whose \<^verbatim>\<open>candidate_id\<close> is 0 or whose \<^verbatim>\<open>name\<close> or \<^verbatim>\<open>party\<close> is the empty
  string, and a cast whose \<^verbatim>\<open>voter_id\<close> or \<^verbatim>\<open>candidate_id\<close> is 0 are all answered with the
  missing-field error (status 409) and leave the store as it was, although the field is
  present in the body.\<close>

theorem falsy_fields_are_missing:
  "(getprop body ''voter_id'' = JNum 0 \<or> getprop body ''name'' = JStr ''''
      \<longrightarrow> post_voters rt st body = (st, Inl (ExpressError MissingField 409)))
   \<and> (getprop body ''candidate_id'' = JNum 0 \<or> getprop body ''name'' = JStr ''''
        \<or> getprop body ''party'' = JStr ''''
      \<longrightarrow> post_candidates st body = (st, Inl (ExpressError MissingField 409)))
   \<and> (getprop body ''voter_id'' = JNum 0 \<or> getprop body ''candidate_id'' = JNum 0
      \<longrightarrow> post_votes st body now = (st, Inl (ExpressError MissingField 409)))"
  by (cases body) (auto simp: post_voters_def post_candidates_def post_votes_def Let_def)

text \<open>One body for each of the seven cases.\<close>

theorem falsy_fields_are_missing_witness:
  "post_voters sample_runtime init zero_id_voter = (init, Inl (ExpressError MissingField 409))
   \<and> post_voters sample_runtime init unnamed_voter = (init, Inl (ExpressError MissingField 409))
   \<and> post_candidates init zero_id_candidate = (init, Inl (ExpressError MissingField 409))
   \<and> post_candidates init unnamed_candidate = (init, Inl (ExpressError MissingField 409))
   \<and> post_candidates init partyless_candidate = (init, Inl (ExpressError MissingField 409))
   \<and> post_votes registered zero_voter_cast 0 = (registered, Inl (ExpressError MissingField 409))
   \<and> post_votes registered zero_candidate_cast 0 = (registered, Inl (ExpressError MissingField 409))"
  using falsy_fields_are_missing[where body = zero_id_voter and rt = sample_runtime and st = init]
    falsy_fields_are_missing[where body = unnamed_voter and rt = sample_runtime and st = init]
    falsy_fields_are_missing[where body = zero_id_candidate and st = init]
    falsy_fields_are_missing[where body = unnamed_candidate and st = init]
    falsy_fields_are_missing[where body = partyless_candidate and st = init]
    falsy_fields_are_missing[where body = zero_voter_cast and st = registered and now = 0]
    falsy_fields_are_missing[where body = zero_candidate_cast and st = registered and now = 0]
  by (simp add: zero_id_voter_def unnamed_voter_def zero_id_candidate_def unnamed_candidate_def
      partyless_candidate_def zero_voter_cast_def zero_candidate_cast_def)

section \<open>The homomorphic tally\<close>

lemma check_shares_ok: "list_all well_formed_share shares \<Longrightarrow> check_shares shares = None"
  by (induction shares) (auto simp: well_formed_share_def)

text \<open>
  Claim C3. The claim does not hold of the code. Every aggregate request with an
  \<^verbatim>\<open>election_id\<close> and a non-empty array of shares that each have \<^verbatim>\<open>trustee_id\<close>,
  \<^verbatim>\<open>share\<close> and \<^verbatim>\<open>proof\<close> ends in the TypeError of \<^verbatim>\<open>candidates.map\<close> (status 500),
  whatever the registry holds: no tally list is returned, and the store, with
  \<^verbatim>\<open>homomorphicTallies\<close> in it, is left as it was.
\<close>

theorem homomorphic_tally_always_throws:
  "\<not> nullish body \<Longrightarrow> truthy (getprop body ''election_id'') \<Longrightarrow>
   getprop body ''trustee_decrypt_shares'' = JArr i shares \<Longrightarrow> shares \<noteq> [] \<Longrightarrow>
   list_all well_formed_share shares \<Longrightarrow>
   post_results_homomorphic st body = (st, Inl TypeError)"
  by (simp add: post_results_homomorphic_def check_shares_ok)

text \<open>With one voter, one candidate and one vote in the store, a request with one
  well-formed share gets the TypeError, and no tally is stored.\<close>

theorem homomorphic_tally_throws:
  "list_all well_formed_share
     (elements (getprop sample_aggregate ''trustee_decrypt_shares''))
   \<and> Map_values (candidates voted)
       = [\<lparr>c_id = JNum 2, c_name = JStr ''Bob'', c_party = JStr ''Blue'', c_votes = 1\<rparr>]
   \<and> post_results_homomorphic voted sample_aggregate = (voted, Inl TypeError)
   \<and> status_of TypeError = 500
   \<and> homomorphicTallies voted = []"
proof -
  have v: "voted = init
     \<lparr>nextVoteId := 102,
      votes := [(101, \<lparr>vote_id = 101, vote_voter = JNum 1, vote_candidate = JNum 2,
                         timestamp = 0\<rparr>)],
      voters := [(JNum 1, \<lparr>v_id = JNum 1, v_name = JStr ''Ann'', v_age = JNum 30,
                            has_voted = True\<rparr>)],
      candidates := [(JNum 2, \<lparr>c_id = JNum 2, c_name = JStr ''Bob'', c_party = JStr ''Blue'',
                                c_votes = 1\<rparr>)]\<rparr>"
    by (simp add: voted_def registered_eq post_votes_def sample_cast_def Map_get_def init_def
        Let_def)
  have w: "list_all well_formed_share
     (elements (getprop sample_aggregate ''trustee_decrypt_shares''))"
    by (simp add: sample_aggregate_def well_formed_share_def)
  have g: "\<not> nullish sample_aggregate" "truthy (getprop sample_aggregate ''election_id'')"
    "getprop sample_aggregate ''trustee_decrypt_shares''
      = JArr 2 [JObj 3 [(''trustee_id'', JStr ''t1''), (''share'', JStr ''s1''),
                        (''proof'', JStr ''p1'')]]"
    by (simp_all add: sample_aggregate_def)
  from homomorphic_tally_always_throws[of sample_aggregate 2 _ voted] w g
  have "post_results_homomorphic voted sample_aggregate = (voted, Inl TypeError)" by simp
  with w show ?thesis by (simp add: v Map_values_def init_def)
qed

section \<open>Ranked ballots\<close>

text \<open>A second submission with the same \<^verbatim>\<open>election_id\<close> and \<^verbatim>\<open>voter_id\<close> is refused,
  whatever its ranking.\<close>

lemma same_pair_rejected:
  "post_ballots_ranked rt st body rnd = (st', Inr r) \<Longrightarrow>
   getprop body2 ''election_id'' = getprop body ''election_id'' \<Longrightarrow>
   getprop body2 ''voter_id'' = getprop body ''voter_id'' \<Longrightarrow>
   isArray (getprop body2 ''ranking'') \<Longrightarrow> elements (getprop body2 ''ranking'') \<noteq> [] \<Longrightarrow>
   new_Date rt (getprop body2 ''timestamp'') = Inr (Some ts) \<Longrightarrow>
   post_ballots_ranked rt st' body2 rnd2 = (st', Inl (ExpressError DuplicateBallot 409))"
  apply (cases body2; cases "getprop body2 ''ranking''")
  apply (auto simp: post_ballots_ranked_def Let_def Map_has_def map_of_Map_set split: if_splits sum.splits option.splits)
  done

text \<open>
  Claim C6. The claim does not hold of the code. What the handler refuses as a duplicate
  is a submission whose key \<^verbatim>\<open>`${election_id}_${voter_id}`\<close> is the key of an accepted
  one, whether or not the two pairs are the same.
\<close>

theorem ranked_duplicate_is_by_key:
  "post_ballots_ranked rt st body rnd = (st', Inr r)
   \<and> truthy (getprop body' ''election_id'') \<and> truthy (getprop body' ''voter_id'')
   \<and> isArray (getprop body' ''ranking'') \<and> elements (getprop body' ''ranking'') \<noteq> []
   \<and> new_Date rt (getprop body' ''timestamp'') = Inr (Some ts)
   \<and> voterKey rt (getprop body' ''election_id'') (getprop body' ''voter_id'')
       = voterKey rt (getprop body ''election_id'') (getprop body ''voter_id'')
   \<longrightarrow> post_ballots_ranked rt st' body' rnd' = (st', Inl (ExpressError DuplicateBallot 409))"
  apply (cases body'; cases "getprop body' ''ranking''")
  apply (auto simp: post_ballots_ranked_def Let_def Map_has_def map_of_Map_set
      split: if_splits sum.splits option.splits)
  done

text \<open>After a ballot of voter \<^verbatim>\<open>"c"\<close> in election \<^verbatim>\<open>"a_b"\<close> is accepted, the store holds
  no ballot of voter \<^verbatim>\<open>"b_c"\<close> in election \<^verbatim>\<open>"a"\<close>, and yet the first submission for
  that pair is refused as a duplicate: both pairs give the key \<^verbatim>\<open>"a_b_c"\<close>.\<close>

theorem ranked_key_collision:
  "(\<exists>b. snd (post_ballots_ranked sample_runtime init ranked_first 1) = Inr (RankedAccepted b))
   \<and> list_all (\<lambda>b. \<not> (rb_election_id b = JStr ''a'' \<and> rb_voter_id b = JStr ''b_c''))
        (Map_values (rankedBallots (fst (post_ballots_ranked sample_runtime init ranked_first 1))))
   \<and> post_ballots_ranked sample_runtime
            (fst (post_ballots_ranked sample_runtime init ranked_first 1)) ranked_other 2
       = (fst (post_ballots_ranked sample_runtime init ranked_first 1),
          Inl (ExpressError DuplicateBallot 409))"
proof -
  have a: "post_ballots_ranked sample_runtime init ranked_first 1
      = (init\<lparr>rankedBallots := [(''a_b_c'',
           \<lparr>rb_ballot_id = ''rb_1'', rb_election_id = JStr ''a_b'', rb_voter_id = JStr ''c'',
            ranking = JArr 2 [JNum 1, JNum 2], rb_timestamp = 0\<rparr>)]\<rparr>,
         Inr (RankedAccepted ''rb_1''))"
    by (simp add: post_ballots_ranked_def ranked_first_def sample_runtime_def
        init_def voterKey_def Map_has_def Let_def)
  have k: "voterKey sample_runtime (getprop ranked_other ''election_id'')
        (getprop ranked_other ''voter_id'')
      = voterKey sample_runtime (getprop ranked_first ''election_id'')
        (getprop ranked_first ''voter_id'')"
    by (simp add: voterKey_def ranked_first_def ranked_other_def)
  have f: "truthy (getprop ranked_other ''election_id'')"
    "truthy (getprop ranked_other ''voter_id'')"
    "isArray (getprop ranked_other ''ranking'')"
    "elements (getprop ranked_other ''ranking'') \<noteq> []"
    "new_Date sample_runtime (getprop ranked_other ''timestamp'') = Inr (Some 1000)"
    by (simp_all add: ranked_other_def sample_runtime_def)
  from ranked_duplicate_is_by_key[where rt = sample_runtime and st = init
      and body = ranked_first and rnd = 1 and body' = ranked_other and rnd' = 2
      and ts = 1000
      and st' = "fst (post_ballots_ranked sample_runtime init ranked_first 1)"
      and r = "RankedAccepted ''rb_1''"] a k f
  show ?thesis by (simp add: Map_values_def)
qed

section \<open>Rounding to doubles\<close>

lemma rhe_bounds: "\<lfloor>q\<rfloor> \<le> round_half_even q \<and> round_half_even q \<le> \<lfloor>q\<rfloor> + 1"
  by (simp add: round_half_even_def Let_def)

lemma rhe_of_int: "round_half_even (of_int n) = n"
  by (simp add: round_half_even_def Let_def)

lemma rhe_mono:
  assumes "q \<le> q'"
  shows "round_half_even q \<le> round_half_even q'"
proof (cases "\<lfloor>q\<rfloor> = \<lfloor>q'\<rfloor>")
  case True
  then show ?thesis using assms
    by (auto simp: round_half_even_def Let_def)
next
  case False
  with assms have "\<lfloor>q\<rfloor> < \<lfloor>q'\<rfloor>" using floor_mono[OF assms] by linarith
  then have "\<lfloor>q\<rfloor> + 1 \<le> \<lfloor>q'\<rfloor>" by simp
  with rhe_bounds[of q] rhe_bounds[of q'] show ?thesis by linarith
qed

lemma halvings_bounds: "1 \<le> x \<Longrightarrow> 2 ^ halvings x \<le> x \<and> x < 2 * 2 ^ halvings x"
proof (induction x rule: halvings.induct)
  case (1 x)
  have h: "halvings x = (if x < 2 then 0 else Suc (halvings (x / 2)))"
    by (rule halvings.simps)
  show ?case
  proof (cases "x < 2")
    case True
    with 1(2) show ?thesis by (simp add: h)
  next
    case False
    then have "1 \<le> x / 2" by simp
    from 1(1)[OF False this] False show ?thesis
      by (simp add: h field_simps)
  qed
qed

lemma doublings_bounds:
  "0 < x \<Longrightarrow> x < 1 \<Longrightarrow> 1 / 2 ^ doublings x \<le> x \<and> x < 2 / 2 ^ doublings x"
proof (induction x rule: doublings.induct)
  case (1 x)
  have n: "\<not> (x \<le> 0 \<or> 1 \<le> x)" using 1(2,3) by simp
  have d: "doublings x = Suc (doublings (2 * x))"
    using n by (subst doublings.simps) simp
  show ?case
  proof (cases "2 * x < 1")
    case True
    from 1(1)[OF n _ True] 1(2) show ?thesis
      unfolding d by (simp add: field_simps)
  next
    case False
    then have "doublings (2 * x) = 0" by (subst doublings.simps) simp
    with False 1(3) show ?thesis unfolding d by simp
  qed
qed

lemma binade_bounds:
  assumes "0 < x"
  shows "2 powi binade x \<le> x \<and> x < 2 powi (binade x + 1)"
proof (cases "1 \<le> x")
  case True
  then have b: "binade x = int (halvings x)" by (simp add: binade_def)
  have "(2::rat) powi (int (halvings x) + 1) = 2 * 2 ^ halvings x"
    by (simp add: power_int_add)
  with halvings_bounds[OF True] show ?thesis unfolding b by simp
next
  case False
  then have x1: "x < 1" by simp
  have b: "binade x = - int (doublings x)" using False by (simp add: binade_def)
  have e1: "(2::rat) powi (- int (doublings x)) = 1 / 2 ^ doublings x"
    by (simp add: power_int_minus_divide)
  have "(2::rat) powi (- int (doublings x) + 1) = 2 powi (- int (doublings x)) * 2"
    by (subst power_int_add) simp_all
  then have e2: "(2::rat) powi (- int (doublings x) + 1) = 2 / 2 ^ doublings x"
    by (simp add: e1)
  from doublings_bounds[OF assms x1] show ?thesis unfolding b e1 e2 .
qed





lemma pow2_pos: "0 < (2::rat) powi e"
  by (simp add: zero_less_power_int)

lemma pow2_split: "(2::rat) powi e = 2 ^ 52 * 2 powi (e - 52)"
proof -
  have "(2::rat) powi e = 2 powi (52 + (e - 52))" by simp
  also have "\<dots> = 2 powi 52 * 2 powi (e - 52)" by (subst power_int_add) simp_all
  finally show ?thesis by simp
qed

lemma pow2_succ: "(2::rat) powi (e + 1) = 2 * 2 powi e"
  by (subst power_int_add) simp_all

text \<open>The significand of a positive number, before rounding, lies in [2^52, 2^53).\<close>

lemma significand_bounds:
  assumes "0 < x"
  shows "2 ^ 52 \<le> x / 2 powi (binade x - 52) \<and> x / 2 powi (binade x - 52) < 2 ^ 53"
proof -
  let ?u = "(2::rat) powi (binade x - 52)"
  have u: "0 < ?u" by (rule pow2_pos)
  from binade_bounds[OF assms] have "2 ^ 52 * ?u \<le> x" "x < 2 * (2 ^ 52 * ?u)"
    using pow2_split[of "binade x"] pow2_succ[of "binade x"] by simp_all
  then show ?thesis using u by (simp add: field_simps)
qed

lemma rhe_significand:
  assumes "0 < x"
  shows "2 ^ 52 \<le> round_half_even (x / 2 powi (binade x - 52))
     \<and> round_half_even (x / 2 powi (binade x - 52)) \<le> 2 ^ 53"
proof -
  let ?q = "x / 2 powi (binade x - 52)"
  from significand_bounds[OF assms] have q: "of_int (2 ^ 52) \<le> ?q" "?q \<le> of_int (2 ^ 53)"
    by simp_all
  from rhe_mono[OF q(1)] rhe_mono[OF q(2)] show ?thesis by (simp only: rhe_of_int)
qed

lemma round_pos_bounds:
  assumes "0 < x"
  shows "2 powi binade x \<le> round_pos x \<and> round_pos x \<le> 2 powi (binade x + 1)"
proof -
  let ?u = "(2::rat) powi (binade x - 52)"
  let ?m = "round_half_even (x / ?u)"
  have u: "0 < ?u" by (rule pow2_pos)
  from rhe_significand[OF assms] have "(2::rat) ^ 52 \<le> of_int ?m" "(of_int ?m :: rat) \<le> 2 ^ 53"
    by (metis of_int_le_iff of_int_numeral of_int_power)+
  then have "2 ^ 52 * ?u \<le> of_int ?m * ?u" "of_int ?m * ?u \<le> 2 ^ 53 * ?u"
    using u by (simp_all add: mult_right_mono)
  then show ?thesis
    using pow2_split[of "binade x"] pow2_succ[of "binade x"] by (simp add: round_pos_def)
qed




lemma round_pos_pos: "0 < x \<Longrightarrow> 0 < round_pos x"
  using round_pos_bounds[of x] pow2_pos[of "binade x"] by linarith

lemma round_double_nonneg: "0 \<le> x \<Longrightarrow> 0 \<le> round_double x"
  using round_pos_pos[of x] by (auto simp: round_double_def less_imp_le)



text \<open>The sums the examples need, computed.\<close>

lemma double_sums:
  "double_0_6 = 5404319552844595 / 9007199254740992"
  "double_0_5 = 1 / 2"
  "double_0_4 = 3602879701896397 / 9007199254740992"
  "dadd 0 double_0_6 = double_0_6"
  "\<not> double_0_6 > 1"
  "dadd double_0_6 double_0_5 > 1"
  "dadd double_0_6 double_0_4 = 1"
  "dadd 1 tiny_epsilon = 1"
  "dadd 0 (1 / 2) = 1 / 2"
  "dsub 1 (1 / 2) = 1 / 2"
  "dsub 1 1 = 0"
  "0 < double_0_6" "0 < double_0_5" "0 < double_0_4" "0 < tiny_epsilon"
  "1 + tiny_epsilon > 1"
  by code_simp+

section \<open>The privacy budget\<close>








lemma dp_cases:
  "post_analytics_dp rt st body noise = (st', out) \<Longrightarrow>
   (st' = st \<and> (\<exists>e. out = Inl e)) \<or>
   (\<exists>eps res. getprop body ''epsilon'' = JNum eps \<and> 0 < eps
      \<and> dadd (currentBudget st (getprop body ''election_id'')) eps \<le> 1
      \<and> out = Inr (DpHistogram res)
      \<and> remaining_budget res = dsub 1 (dadd (currentBudget st (getprop body ''election_id'')) eps)
      \<and> st' = st\<lparr>dpAnalyticsBudget := Map_set (dpAnalyticsBudget st) (getprop body ''election_id'')
           (dadd (currentBudget st (getprop body ''election_id'')) eps)\<rparr>)"
  by (auto simp: post_analytics_dp_def Let_def maxBudget_def split: if_splits jsval.splits option.splits)


lemma list_all_Map_set:
  "list_all P m \<Longrightarrow> P (k, v) \<Longrightarrow> list_all P (Map_set m k v)"
  by (induction m k v rule: Map_set.induct) auto














text \<open>
  Claim C9. The claim does not hold of the code: a query whose \<^verbatim>\<open>buckets\<close> is the empty
  array, sent to the empty store with epsilon 1/2 and delta 0, is accepted with an empty
  histogram, and the epsilon is spent.\<close>

theorem empty_buckets_not_missing:
  "post_analytics_dp sample_runtime init empty_buckets_query constant_noise
     = (init\<lparr>dpAnalyticsBudget := [(JStr ''e1'', 1 / 2)]\<rparr>,
        Inr (DpHistogram
          \<lparr>dp_election_id = JStr ''e1'', query_type = JStr ''histogram'',
           dimension = JStr ''age'', histogram = [], epsilon_used = 1 / 2, delta_used = 0,
           remaining_budget = 1 / 2\<rparr>))
   \<and> snd (post_analytics_dp sample_runtime init empty_buckets_query constant_noise)
       \<noteq> Inl (ExpressError MissingField 400)"
  by (simp add: post_analytics_dp_def empty_buckets_query_def init_def currentBudget_def
      Map_get_def maxBudget_def Let_def double_sums)

text \<open>
  Claim C9 as amended. The check on \<^verbatim>\<open>query.buckets\<close> is a truthiness check: the
  missing-field error (status 400) answers a query whose \<^verbatim>\<open>buckets\<close> is absent or falsy.
  An empty array is truthy. A query whose \<^verbatim>\<open>buckets\<close> is an empty array, with
  \<^verbatim>\<open>election_id\<close>, \<^verbatim>\<open>query.type\<close> and \<^verbatim>\<open>query.dimension\<close> present, a positive epsilon and
  a delta in [0, 1], is refused only when the budget would be exceeded; otherwise it is
  accepted with an empty histogram and its epsilon is added to the election's spend.\<close>

theorem empty_buckets_pass:
  "(\<not> nullish body \<and> \<not> truthy (getprop (getprop body ''query'') ''buckets'')
      \<longrightarrow> post_analytics_dp rt st body noise = (st, Inl (ExpressError MissingField 400)))
   \<and> (truthy (getprop body ''election_id'')
       \<and> truthy (getprop (getprop body ''query'') ''type'')
       \<and> truthy (getprop (getprop body ''query'') ''dimension'')
       \<and> getprop (getprop body ''query'') ''buckets'' = JArr i []
       \<and> getprop body ''epsilon'' = JNum eps \<and> 0 < eps
       \<and> getprop body ''delta'' = JNum d \<and> 0 \<le> d \<and> d \<le> 1
      \<longrightarrow> post_analytics_dp rt st body noise =
           (if dadd (currentBudget st (getprop body ''election_id'')) eps > maxBudget
            then (st, Inl (ExpressError BudgetExceeded 403))
            else (st\<lparr>dpAnalyticsBudget :=
                       Map_set (dpAnalyticsBudget st) (getprop body ''election_id'')
                         (dadd (currentBudget st (getprop body ''election_id'')) eps)\<rparr>,
                  Inr (DpHistogram
                    \<lparr>dp_election_id = getprop body ''election_id'',
                     query_type = getprop (getprop body ''query'') ''type'',
                     dimension = getprop (getprop body ''query'') ''dimension'',
                     histogram = [], epsilon_used = eps, delta_used = d,
                     remaining_budget =
                       dsub maxBudget (dadd (currentBudget st (getprop body ''election_id'')) eps)\<rparr>))))"
proof (intro conjI impI)
  assume "\<not> nullish body \<and> \<not> truthy (getprop (getprop body ''query'') ''buckets'')"
  then show "post_analytics_dp rt st body noise = (st, Inl (ExpressError MissingField 400))"
    by (simp add: post_analytics_dp_def Let_def)
next
  assume a: "truthy (getprop body ''election_id'')
       \<and> truthy (getprop (getprop body ''query'') ''type'')
       \<and> truthy (getprop (getprop body ''query'') ''dimension'')
       \<and> getprop (getprop body ''query'') ''buckets'' = JArr i []
       \<and> getprop body ''epsilon'' = JNum eps \<and> 0 < eps
       \<and> getprop body ''delta'' = JNum d \<and> 0 \<le> d \<and> d \<le> 1"
  then have "\<not> nullish body" by (cases body) auto
  moreover from a have "truthy (getprop body ''query'')"
    by (cases "getprop body ''query''") auto
  ultimately show "post_analytics_dp rt st body noise =
           (if dadd (currentBudget st (getprop body ''election_id'')) eps > maxBudget
            then (st, Inl (ExpressError BudgetExceeded 403))
            else (st\<lparr>dpAnalyticsBudget :=
                       Map_set (dpAnalyticsBudget st) (getprop body ''election_id'')
                         (dadd (currentBudget st (getprop body ''election_id'')) eps)\<rparr>,
                  Inr (DpHistogram
                    \<lparr>dp_election_id = getprop body ''election_id'',
                     query_type = getprop (getprop body ''query'') ''type'',
                     dimension = getprop (getprop body ''query'') ''dimension'',
                     histogram = [], epsilon_used = eps, delta_used = d,
                     remaining_budget =
                       dsub maxBudget (dadd (currentBudget st (getprop body ''election_id'')) eps)\<rparr>)))"
    using a by (simp add: post_analytics_dp_def Let_def)
qed

theorem empty_buckets_pass_witness:
  "post_analytics_dp sample_runtime init no_buckets_query constant_noise
     = (init, Inl (ExpressError MissingField 400))
   \<and> (\<exists>res. post_analytics_dp sample_runtime init empty_buckets_query constant_noise
        = (init\<lparr>dpAnalyticsBudget := [(JStr ''e1'', 1 / 2)]\<rparr>, Inr (DpHistogram res))
        \<and> histogram res = [])"
  using empty_buckets_pass[where body = no_buckets_query and rt = sample_runtime and st = init
      and noise = constant_noise]
    empty_buckets_pass[where body = empty_buckets_query and rt = sample_runtime and st = init
      and noise = constant_noise and i = 3 and eps = "1 / 2" and d = 0]
  by (simp add: no_buckets_query_def empty_buckets_query_def init_def currentBudget_def
      Map_get_def maxBudget_def double_sums)

section \<open>Nullifiers\<close>








section \<open>The range query\<close>

lemma step_keys_truthy:
  "step rt st r = (st', out) \<Longrightarrow> keys_truthy st \<Longrightarrow> keys_truthy st'"
proof (cases r)
  case (PostVoters b) then show "step rt st r = (st', out) \<Longrightarrow> keys_truthy st \<Longrightarrow> ?thesis"
    by (auto simp: post_voters_def Let_def keys_truthy_def split: if_splits sum.splits bool.splits)
next
  case (PutVoter p b) then show "step rt st r = (st', out) \<Longrightarrow> keys_truthy st \<Longrightarrow> ?thesis"
    by (auto simp: put_voter_def Let_def keys_truthy_def split: if_splits sum.splits bool.splits option.splits)
next
  case (DeleteVoter p) then show "step rt st r = (st', out) \<Longrightarrow> keys_truthy st \<Longrightarrow> ?thesis"
    by (auto simp: delete_voter_def keys_truthy_def split: if_splits option.splits)
next
  case (PostCandidates b) then show "step rt st r = (st', out) \<Longrightarrow> keys_truthy st \<Longrightarrow> ?thesis"
    by (auto simp: post_candidates_def Let_def keys_truthy_def list_all_Map_set split: if_splits)
next
  case (PostVotes b n) then show "step rt st r = (st', out) \<Longrightarrow> keys_truthy st \<Longrightarrow> ?thesis"
    using post_votes_cases[of st b n st' out] by (auto simp: keys_truthy_def list_all_Map_set)
next
  case (GetVotesRange q) then show "step rt st r = (st', out) \<Longrightarrow> keys_truthy st \<Longrightarrow> ?thesis"
    by (auto simp: get_votes_range_def keys_truthy_def split: if_splits sum.splits option.splits)
next
  case (PostBallotsEncrypted b u n) then show "step rt st r = (st', out) \<Longrightarrow> keys_truthy st \<Longrightarrow> ?thesis"
    by (auto simp: post_ballots_encrypted_def Let_def keys_truthy_def split: if_splits)
next
  case (PostResultsHomomorphic b) then show "step rt st r = (st', out) \<Longrightarrow> keys_truthy st \<Longrightarrow> ?thesis"
    by (auto simp: post_results_homomorphic_def Let_def split: if_splits option.splits)
next
  case (PostAnalyticsDp b n) then show "step rt st r = (st', out) \<Longrightarrow> keys_truthy st \<Longrightarrow> ?thesis"
    using dp_cases[of rt st b n st' out] by (auto simp: keys_truthy_def)
next
  case (PostBallotsRanked b n) then show "step rt st r = (st', out) \<Longrightarrow> keys_truthy st \<Longrightarrow> ?thesis"
    by (auto simp: post_ballots_ranked_def Let_def keys_truthy_def split: if_splits option.splits sum.splits)
qed

lemma run_keys_truthy: "keys_truthy st \<Longrightarrow> keys_truthy (fst (run rt st reqs))"
proof (induction reqs arbitrary: st)
  case Nil
  then show ?case by simp
next
  case (Cons r rs)
  obtain st1 out where s1: "step rt st r = (st1, out)" by (cases "step rt st r")
  have f: "fst (run rt st (r # rs)) = fst (run rt st1 rs)"
    by (simp add: s1 split: prod.splits)
  from Cons.IH[OF step_keys_truthy[OF s1 Cons.prems]] show ?case unfolding f .
qed

lemma registered_id_nonzero:
  assumes "keys_truthy st" and "Map_has (candidates st) (JNum (of_int c))"
  shows "c \<noteq> 0"
proof -
  from assms(2) obtain x where "map_of (candidates st) (JNum (of_int c)) = Some x"
    by (auto simp: Map_has_def)
  then have "(JNum (of_int c), x) \<in> set (candidates st)" by (rule map_of_SomeD)
  with assms(1) have "truthy (JNum (of_int c))" by (auto simp: keys_truthy_def list_all_iff)
  then show ?thesis by auto
qed

text \<open>
  Claim C7. In any store the server can reach, let \<open>cid\<close>, \<open>lo\<close> and \<open>hi\<close> be what
  \<^verbatim>\<open>parseInt\<close> and \<^verbatim>\<open>new Date\<close> make of the three query parameters. If no candidate is
  registered under the number \<open>cid\<close> (or \<open>cid\<close> is \<^verbatim>\<open>NaN\<close>) the query fails with NotFound
  (417). Otherwise, if a bound is an invalid date it fails with InvalidInput (400);
  otherwise, if \<open>lo > hi\<close> it fails with InvalidInterval (424); otherwise it answers with
  the number of ledger votes for that candidate whose instant \<open>ts\<close> satisfies
  \<open>lo \<le> ts \<le> hi\<close>. With \<open>lo = hi\<close> that is the number of the candidate's votes cast at
  exactly that instant. The store is never changed.\<close>

theorem range_query:
  "parseInt rt (getprop q ''candidate_id'') = Inr cid
   \<and> new_Date rt (getprop q ''from'') = Inr lo
   \<and> new_Date rt (getprop q ''to'') = Inr hi
   \<and> st = fst (run rt init reqs)
   \<longrightarrow>
     ((\<forall>c. cid = Some c \<longrightarrow> \<not> Map_has (candidates st) (JNum (of_int c)))
        \<longrightarrow> get_votes_range rt st q = (st, Inl (ExpressError NotFound 417)))
   \<and> (\<forall>c. cid = Some c \<and> Map_has (candidates st) (JNum (of_int c)) \<longrightarrow>
        ((lo = None \<or> hi = None)
           \<longrightarrow> get_votes_range rt st q = (st, Inl (ExpressError InvalidInput 400)))
      \<and> (\<forall>f t. lo = Some f \<and> hi = Some t \<longrightarrow>
           (f > t \<longrightarrow> get_votes_range rt st q = (st, Inl (ExpressError InvalidInterval 424)))
         \<and> (f \<le> t \<longrightarrow> get_votes_range rt st q =
               (st, Inr (RangeCount
                  \<lparr>rr_candidate_id = c, rr_from = f, rr_to = t,
                   votes_gained = length (filter
                     (\<lambda>v. vote_candidate v = JNum (of_int c) \<and> f \<le> timestamp v \<and> timestamp v \<le> t)
                     (Map_values (votes st)))\<rparr>)))
         \<and> (f = t \<longrightarrow> get_votes_range rt st q =
               (st, Inr (RangeCount
                  \<lparr>rr_candidate_id = c, rr_from = t, rr_to = t,
                   votes_gained = length (filter
                     (\<lambda>v. vote_candidate v = JNum (of_int c) \<and> timestamp v = t)
                     (Map_values (votes st)))\<rparr>)))))"
proof (intro impI)
  assume a: "parseInt rt (getprop q ''candidate_id'') = Inr cid
   \<and> new_Date rt (getprop q ''from'') = Inr lo
   \<and> new_Date rt (getprop q ''to'') = Inr hi
   \<and> st = fst (run rt init reqs)"
  have "keys_truthy init" by (simp add: keys_truthy_def init_def)
  then have kt: "keys_truthy st" using a run_keys_truthy by simp
  have nz: "c \<noteq> 0" if "Map_has (candidates st) (JNum (of_int c))" for c
    using registered_id_nonzero[OF kt that] .
  have eq: "(\<lambda>v. vote_candidate v = JNum (of_int c) \<and> t \<le> timestamp v \<and> timestamp v \<le> t)
      = (\<lambda>v. vote_candidate v = JNum (of_int c) \<and> timestamp v = t)" for c and t :: int
    by auto
  have ir: "in_range c f t
      = (\<lambda>v. vote_candidate v = JNum (of_int c) \<and> f \<le> timestamp v \<and> timestamp v \<le> t)"
    for c f t
    by (rule ext) (simp add: in_range_def)
  have absent: "get_votes_range rt st q = (st, Inl (ExpressError NotFound 417))"
    if "\<forall>c. cid = Some c \<longrightarrow> \<not> Map_has (candidates st) (JNum (of_int c))"
    using a that by (cases cid) (auto simp: get_votes_range_def)
  have present: "((lo = None \<or> hi = None)
           \<longrightarrow> get_votes_range rt st q = (st, Inl (ExpressError InvalidInput 400)))
      \<and> (\<forall>f t. lo = Some f \<and> hi = Some t \<longrightarrow>
           (f > t \<longrightarrow> get_votes_range rt st q = (st, Inl (ExpressError InvalidInterval 424)))
         \<and> (f \<le> t \<longrightarrow> get_votes_range rt st q =
               (st, Inr (RangeCount
                  \<lparr>rr_candidate_id = c, rr_from = f, rr_to = t,
                   votes_gained = length (filter
                     (\<lambda>v. vote_candidate v = JNum (of_int c) \<and> f \<le> timestamp v \<and> timestamp v \<le> t)
                     (Map_values (votes st)))\<rparr>)))
         \<and> (f = t \<longrightarrow> get_votes_range rt st q =
               (st, Inr (RangeCount
                  \<lparr>rr_candidate_id = c, rr_from = t, rr_to = t,
                   votes_gained = length (filter
                     (\<lambda>v. vote_candidate v = JNum (of_int c) \<and> timestamp v = t)
                     (Map_values (votes st)))\<rparr>))))"
    if "cid = Some c \<and> Map_has (candidates st) (JNum (of_int c))" for c
  proof -
    from that nz have c: "cid = Some c" "Map_has (candidates st) (JNum (of_int c))" "c \<noteq> 0"
      by auto
    show ?thesis
      using a c by (cases lo; cases hi) (auto simp: get_votes_range_def ir eq)
  qed
  from absent present show "((\<forall>c. cid = Some c \<longrightarrow> \<not> Map_has (candidates st) (JNum (of_int c)))
        \<longrightarrow> get_votes_range rt st q = (st, Inl (ExpressError NotFound 417)))
   \<and> (\<forall>c. cid = Some c \<and> Map_has (candidates st) (JNum (of_int c)) \<longrightarrow>
        ((lo = None \<or> hi = None)
           \<longrightarrow> get_votes_range rt st q = (st, Inl (ExpressError InvalidInput 400)))
      \<and> (\<forall>f t. lo = Some f \<and> hi = Some t \<longrightarrow>
           (f > t \<longrightarrow> get_votes_range rt st q = (st, Inl (ExpressError InvalidInterval 424)))
         \<and> (f \<le> t \<longrightarrow> get_votes_range rt st q =
               (st, Inr (RangeCount
                  \<lparr>rr_candidate_id = c, rr_from = f, rr_to = t,
                   votes_gained = length (filter
                     (\<lambda>v. vote_candidate v = JNum (of_int c) \<and> f \<le> timestamp v \<and> timestamp v \<le> t)
                     (Map_values (votes st)))\<rparr>)))
         \<and> (f = t \<longrightarrow> get_votes_range rt st q =
               (st, Inr (RangeCount
                  \<lparr>rr_candidate_id = c, rr_from = t, rr_to = t,
                   votes_gained = length (filter
                     (\<lambda>v. vote_candidate v = JNum (of_int c) \<and> timestamp v = t)
                     (Map_values (votes st)))\<rparr>)))))"
    by blast
qed

lemma timed_session_eq:
  "fst (run sample_runtime init timed_session) =
     \<lparr>voters = [(JNum 1, \<lparr>v_id = JNum 1, v_name = JStr ''Ann'', v_age = JNum 30,
                            has_voted = True\<rparr>),
                (JNum 2, \<lparr>v_id = JNum 2, v_name = JStr ''Cy'', v_age = JNum 41,
                            has_voted = True\<rparr>)],
      candidates = [(JNum 2, \<lparr>c_id = JNum 2, c_name = JStr ''Bob'', c_party = JStr ''Blue'',
                                c_votes = 2\<rparr>)],
      votes = [(101, \<lparr>vote_id = 101, vote_voter = JNum 1, vote_candidate = JNum 2,
                         timestamp = 0\<rparr>),
               (102, \<lparr>vote_id = 102, vote_voter = JNum 2, vote_candidate = JNum 2,
                         timestamp = 1000\<rparr>)],
      nextVoteId = 103, encryptedBallots = [], homomorphicTallies = [],
      dpAnalyticsBudget = [], rankedBallots = []\<rparr>"
  by (simp add: timed_session_def sample_cast_def sample_cast2_def sample_voter_def
        sample_voter2_def sample_candidate_def sample_runtime_def init_def post_votes_def
        post_voters_def post_candidates_def less_than_18_def Map_has_def Map_get_def
        rendered_def Let_def)

text \<open>Two votes for candidate 2, at the instants 0 and 1000: the five outcomes.\<close>

theorem range_query_witness:
  "get_votes_range sample_runtime (fst (run sample_runtime init timed_session))
       (range_of ''2'' ''1970-01-01T00:00:00.000Z'' ''1970-01-01T00:00:01.000Z'')
     = (fst (run sample_runtime init timed_session),
        Inr (RangeCount \<lparr>rr_candidate_id = 2, rr_from = 0, rr_to = 1000, votes_gained = 2\<rparr>))
   \<and> get_votes_range sample_runtime (fst (run sample_runtime init timed_session))
       (range_of ''2'' ''1970-01-01T00:00:01.000Z'' ''1970-01-01T00:00:01.000Z'')
     = (fst (run sample_runtime init timed_session),
        Inr (RangeCount \<lparr>rr_candidate_id = 2, rr_from = 1000, rr_to = 1000, votes_gained = 1\<rparr>))
   \<and> get_votes_range sample_runtime (fst (run sample_runtime init timed_session))
       (range_of ''2'' ''1970-01-01T00:00:01.000Z'' ''1970-01-01T00:00:00.000Z'')
     = (fst (run sample_runtime init timed_session), Inl (ExpressError InvalidInterval 424))
   \<and> get_votes_range sample_runtime (fst (run sample_runtime init timed_session))
       (range_of ''2'' ''1970-01-01T00:00:00.000Z'' ''soon'')
     = (fst (run sample_runtime init timed_session), Inl (ExpressError InvalidInput 400))
   \<and> get_votes_range sample_runtime (fst (run sample_runtime init timed_session))
       (range_of ''1'' ''1970-01-01T00:00:00.000Z'' ''1970-01-01T00:00:01.000Z'')
     = (fst (run sample_runtime init timed_session), Inl (ExpressError NotFound 417))"
proof -
  let ?st = "fst (run sample_runtime init timed_session)"
  let ?t0 = "''1970-01-01T00:00:00.000Z''" and ?t1 = "''1970-01-01T00:00:01.000Z''"
  have pi: "parseInt sample_runtime (getprop (range_of c f t) ''candidate_id'')
      = Inr (parse_int sample_runtime c)" for c f t
    by (simp add: parseInt_def range_of_def)
  have p2: "parse_int sample_runtime ''2'' = Some 2" "parse_int sample_runtime ''1'' = Some 1"
    by (simp_all add: sample_runtime_def)
  have nd: "new_Date sample_runtime (getprop (range_of c f t) ''from'')
      = Inr (date_parse sample_runtime f)"
    "new_Date sample_runtime (getprop (range_of c f t) ''to'')
      = Inr (date_parse sample_runtime t)" for c f t
    by (simp_all add: range_of_def)
  have dp: "date_parse sample_runtime ?t0 = Some 0" "date_parse sample_runtime ?t1 = Some 1000"
    "date_parse sample_runtime ''soon'' = None"
    by (simp_all add: sample_runtime_def)
  have h: "Map_has (candidates ?st) (JNum (of_int 2))" "\<not> Map_has (candidates ?st) (JNum (of_int 1))"
    by (simp_all add: timed_session_eq Map_has_def)
  have v: "Map_values (votes ?st) =
      [\<lparr>vote_id = 101, vote_voter = JNum 1, vote_candidate = JNum 2, timestamp = 0\<rparr>,
       \<lparr>vote_id = 102, vote_voter = JNum 2, vote_candidate = JNum 2, timestamp = 1000\<rparr>]"
    by (simp add: timed_session_eq Map_values_def)
  note T = range_query[where rt = sample_runtime and st = ?st and reqs = timed_session]
  have a: "get_votes_range sample_runtime ?st (range_of ''2'' ?t0 ?t1)
     = (?st, Inr (RangeCount \<lparr>rr_candidate_id = 2, rr_from = 0, rr_to = 1000, votes_gained = 2\<rparr>))"
    using T[where q = "range_of ''2'' ?t0 ?t1" and cid = "Some 2" and lo = "Some 0"
        and hi = "Some 1000"] pi[of "''2''"] p2 nd dp h v
    by simp
  have b: "get_votes_range sample_runtime ?st (range_of ''2'' ?t1 ?t1)
     = (?st, Inr (RangeCount \<lparr>rr_candidate_id = 2, rr_from = 1000, rr_to = 1000, votes_gained = 1\<rparr>))"
    using T[where q = "range_of ''2'' ?t1 ?t1" and cid = "Some 2" and lo = "Some 1000"
        and hi = "Some 1000"] pi[of "''2''"] p2 nd dp h v
    by simp
  have c: "get_votes_range sample_runtime ?st (range_of ''2'' ?t1 ?t0)
     = (?st, Inl (ExpressError InvalidInterval 424))"
    using T[where q = "range_of ''2'' ?t1 ?t0" and cid = "Some 2" and lo = "Some 1000"
        and hi = "Some 0"] pi[of "''2''"] p2 nd dp h
    by simp
  have d: "get_votes_range sample_runtime ?st (range_of ''2'' ?t0 ''soon'')
     = (?st, Inl (ExpressError InvalidInput 400))"
    using T[where q = "range_of ''2'' ?t0 ''soon''" and cid = "Some 2" and lo = "Some 0"
        and hi = None] pi[of "''2''"] p2 nd dp h
    by simp
  have e: "get_votes_range sample_runtime ?st (range_of ''1'' ?t0 ?t1)
     = (?st, Inl (ExpressError NotFound 417))"
    using T[where q = "range_of ''1'' ?t0 ?t1" and cid = "Some 1" and lo = "Some 0"
        and hi = "Some 1000"] pi[of "''1''"] p2 nd dp h
    by simp
  from a b c d e show ?thesis by blast
qed


end
